theory Spec2Isabelle
  imports Main
begin

section \<open>JavaScript objects used as dictionaries\<close>

text \<open>
  The repository keeps reducers and entities in plain objects, created by \<open>{}\<close> and
  indexed by a property key. An object has own properties and a prototype: a lookup
  \<open>obj[key]\<close> that finds no own property of that key goes on in the prototype. The
  prototype of an object literal is \<open>Object.prototype\<close>. In a program that has not changed
  it, its members are the following (ECMAScript, the properties of the Object prototype
  object, with the legacy ones). All of them are
  functions, except \<open>__proto__\<close>, which is an accessor: reading it gives the prototype of
  the object, and assigning an object to it makes that object the prototype.
\<close>

definition Object_prototype :: "string list" where
  "Object_prototype =
     [''constructor'', ''hasOwnProperty'', ''isPrototypeOf'', ''propertyIsEnumerable'',
      ''toLocaleString'', ''toString'', ''valueOf'', ''__proto__'',
      ''__defineGetter__'', ''__defineSetter__'', ''__lookupGetter__'', ''__lookupSetter__'']"

text \<open>
  A dictionary has its own properties, a map from property keys to values, and a
  prototype: \<open>None\<close> stands for \<open>Object.prototype\<close>, and \<open>Some p\<close> for the object \<open>p\<close> that an
  assignment to \<open>__proto__\<close> has put in its place. The values of type \<open>'v\<close> are objects
  (reducers are functions, entities are objects). The order of the own properties, which
  only an enumeration of the object shows, is left out.
\<close>

record 'v dictionary =
  own :: "string \<rightharpoonup> 'v"
  prototype :: "'v option"

definition empty_object :: "'v dictionary" where
  "empty_object = \<lparr>own = Map.empty, prototype = None\<rparr>"

text \<open>
  What a lookup \<open>obj[key]\<close> evaluates to: \<open>undefined\<close> (\<open>Absent\<close>), the value of an own
  property, the member of \<open>Object.prototype\<close> of that name, or, when the prototype has been
  replaced by the object \<open>p\<close>, the property of that name of \<open>p\<close>. What the last one is
  depends on the object \<open>p\<close> and on its own prototype chain.
\<close>

datatype 'v property = Absent | Own 'v | Member string | Inherited 'v string

definition get_property :: "'v dictionary \<Rightarrow> string \<Rightarrow> 'v property" where
  "get_property obj key =
     (case own obj key of
        Some v \<Rightarrow> Own v
      | None \<Rightarrow>
          (case prototype obj of
             None \<Rightarrow> (if key \<in> set Object_prototype then Member key else Absent)
           | Some p \<Rightarrow> Inherited p key))"

text \<open>
  The values of own properties and the members of \<open>Object.prototype\<close> are objects, so for
  the value \<open>x\<close> of a lookup the tests \<open>x !== undefined\<close> and \<open>Boolean(x)\<close> agree, and \<open>!x\<close> is
  their negation. For a property found in a replaced prototype the model leaves the
  answer open: \<open>None\<close>.
\<close>

definition is_present :: "'v property \<Rightarrow> bool option" where
  "is_present x =
     (case x of
        Absent \<Rightarrow> Some False
      | Own v \<Rightarrow> Some True
      | Member name \<Rightarrow> Some True
      | Inherited p name \<Rightarrow> None)"

text \<open>
  \<^item> \<open>{ ...obj }\<close> is a new object with the own properties of \<open>obj\<close> and the prototype
    \<open>Object.prototype\<close>;
  \<^item> \<open>[key]: v\<close> in an object literal defines an own property, whatever the key;
  \<^item> \<open>delete obj[key]\<close> removes the own property of that key, if there is one;
  \<^item> the assignment \<open>obj[key] = v\<close> of an object \<open>v\<close> overwrites an own property. When
    there is none and the prototype is \<open>Object.prototype\<close>, it replaces the prototype if the
    key is \<open>__proto__\<close> and creates an own property otherwise (the members of
    \<open>Object.prototype\<close> are writable). When there is none and the prototype has been
    replaced, what the assignment does depends on the properties of that object (it
    throws a \<open>TypeError\<close> for one that is read-only, as \<open>name\<close> is in a function): the model
    leaves it open.
\<close>

definition spread_object :: "'v dictionary \<Rightarrow> 'v dictionary" where
  "spread_object obj = \<lparr>own = own obj, prototype = None\<rparr>"

definition define_property :: "string \<Rightarrow> 'v \<Rightarrow> 'v dictionary \<Rightarrow> 'v dictionary" where
  "define_property key v obj = obj\<lparr>own := (own obj)(key \<mapsto> v)\<rparr>"

definition delete_property :: "string \<Rightarrow> 'v dictionary \<Rightarrow> 'v dictionary" where
  "delete_property key obj = obj\<lparr>own := (own obj)(key := None)\<rparr>"

definition assign_property :: "string \<Rightarrow> 'v \<Rightarrow> 'v dictionary \<Rightarrow> 'v dictionary option" where
  "assign_property key v obj =
     (if own obj key \<noteq> None then Some (define_property key v obj)
      else (case prototype obj of
              None \<Rightarrow>
                (if key = ''__proto__'' then Some (obj\<lparr>prototype := Some v\<rparr>)
                 else Some (define_property key v obj))
            | Some p \<Rightarrow> None))"


section \<open>SSR hydration: rehydrateState (ssr/hydration.ts)\<close>

text \<open>
  The first parameter of \<open>rehydrateState\<close> has the type \<open>string | null | undefined\<close>.
  The guard \<open>!serialized\<close> is JavaScript falsiness: it holds for \<open>null\<close>, for
  \<open>undefined\<close> and for the empty string.
\<close>

datatype serialized = Null | Undefined | Str string

definition falsy :: "serialized \<Rightarrow> bool" where
  "falsy s = (case s of Null \<Rightarrow> True | Undefined \<Rightarrow> True | Str raw \<Rightarrow> raw = [])"

text \<open>
  A deserializer either returns a state (\<open>Inr\<close>) or throws (\<open>Inl\<close>). \<open>JSON.parse\<close> belongs
  to the host language, so it is a parameter of the model. Every invocation of a
  deserializer is recorded, so that "is not invoked" can be stated. \<open>deserialize\<close> is the
  expression \<open>deserializer ? deserializer(serialized) : JSON.parse(serialized)\<close>.
\<close>

datatype deser_call = Custom_deserializer string | JSON_parse string

definition deserialize ::
  "(string \<Rightarrow> 'x + 's) \<Rightarrow> (string \<Rightarrow> 'x + 's) option \<Rightarrow> string
     \<Rightarrow> deser_call \<times> ('x + 's)" where
  "deserialize json_parse deserializer raw =
     (case deserializer of
        Some d \<Rightarrow> (Custom_deserializer raw, d raw)
      | None \<Rightarrow> (JSON_parse raw, json_parse raw))"

text \<open>
  The result is the list of deserializer invocations together with the outcome of the
  call: \<open>Inr\<close> for a returned state, \<open>Inl\<close> for an exception that reaches the caller. The
  \<open>try\<close>/\<open>catch\<close> turns every exception of the deserializer into the fallback.
\<close>

definition rehydrateState ::
  "(string \<Rightarrow> 'x + 's) \<Rightarrow> serialized \<Rightarrow> 's \<Rightarrow> (string \<Rightarrow> 'x + 's) option
     \<Rightarrow> deser_call list \<times> ('x + 's)" where
  "rehydrateState json_parse serialized fallback deserializer =
     (if falsy serialized then ([], Inr fallback)
      else (case serialized of
              Str raw \<Rightarrow>
                (let (call, tried) = deserialize json_parse deserializer raw
                 in (case tried of
                       Inr v \<Rightarrow> ([call], Inr v)
                     | Inl e \<Rightarrow> ([call], Inr fallback)))
            | _ \<Rightarrow> ([], Inr fallback)))"

text \<open>
  Two deserializers for concrete runs: one that throws on every input, as \<open>JSON.parse\<close>
  does on malformed text, and one that accepts every input and returns the state 7.
\<close>

definition rejecting_parse :: "string \<Rightarrow> unit + nat" where
  "rejecting_parse raw = Inl ()"

definition accepting_deserializer :: "string \<Rightarrow> unit + nat" where
  "accepting_deserializer raw = Inr 7"


section \<open>Lazy reducer registry: ReducerRegistry (lazy/lazy-reducer.ts)\<close>

text \<open>
  A registry object has three fields. \<open>reducerMap\<close> is a plain object used as a dictionary
  from string keys to reducers. Reducers (type \<open>'r\<close>) and listeners (type \<open>'l\<close>) are
  functions of the caller; the registry only stores, compares and calls them, so they are
  opaque values.
\<close>

record ('r, 'l) ReducerRegistry =
  reducerMap :: "'r dictionary"
  baseReducer :: "'r option"
  listeners :: "'l list"

definition new_ReducerRegistry :: "('r, 'l) ReducerRegistry" where
  "new_ReducerRegistry = \<lparr>reducerMap = empty_object, baseReducer = None, listeners = []\<rparr>"

definition setBaseReducer :: "'r \<Rightarrow> ('r, 'l) ReducerRegistry \<Rightarrow> ('r, 'l) ReducerRegistry" where
  "setBaseReducer reducer reg = reg\<lparr>baseReducer := Some reducer\<rparr>"

text \<open>
  \<open>notifyListeners\<close> calls every listener of the array in order. A listener is code of
  the caller, so a call is an observable event: the methods below return the new registry
  together with the listeners they called, in the order of the calls. What a listener
  does is not part of the registry; the model takes listeners that return and leave the
  registry alone. The result \<open>None\<close> is the one of the dictionary: the prototype of
  \<open>reducerMap\<close> has been replaced, and what the method does depends on the object that is
  the prototype now.
\<close>

definition notifyListeners :: "('r, 'l) ReducerRegistry \<Rightarrow> 'l list" where
  "notifyListeners reg = listeners reg"

definition register ::
  "string \<Rightarrow> 'r \<Rightarrow> ('r, 'l) ReducerRegistry \<Rightarrow> (('r, 'l) ReducerRegistry \<times> 'l list) option"
  where
  "register key reducer reg =
     (case assign_property key reducer (reducerMap reg) of
        None \<Rightarrow> None
      | Some assigned \<Rightarrow>
          (let reg' = reg\<lparr>reducerMap := assigned\<rparr>
           in Some (reg', notifyListeners reg')))"

definition unregister ::
  "string \<Rightarrow> ('r, 'l) ReducerRegistry \<Rightarrow> (('r, 'l) ReducerRegistry \<times> 'l list) option" where
  "unregister key reg =
     (case is_present (get_property (reducerMap reg) key) of
        None \<Rightarrow> None
      | Some True \<Rightarrow>
          (let reg' = reg\<lparr>reducerMap := delete_property key (reducerMap reg)\<rparr>
           in Some (reg', notifyListeners reg'))
      | Some False \<Rightarrow> Some (reg, []))"

text \<open>
  \<open>getCombinedReducer\<close> returns either the base reducer itself or a new function that
  closes over a copy of \<open>reducerMap\<close> and over the base reducer. The returned function is
  represented by the values it closes over, one constructor for each \<open>return\<close> of the
  source; \<open>combineReducers\<close> is Redux's, and it gets the copy, of which the own properties
  are kept here. \<open>Object.keys(reducers).length\<close> is the number of own properties.
\<close>

datatype 'r combined =
    Base_reducer 'r
  | Base_then_slices 'r "(string \<rightharpoonup> 'r) option"
  | Combined_slices "string \<rightharpoonup> 'r"
  | Identity_reducer

definition getCombinedReducer :: "('r, 'l) ReducerRegistry \<Rightarrow> 'r combined" where
  "getCombinedReducer reg =
     (let reducers = spread_object (reducerMap reg);
          no_keys = (own reducers = Map.empty)
      in (case baseReducer reg of
            Some base \<Rightarrow>
              (if no_keys then Base_reducer base
               else Base_then_slices base (if \<not> no_keys then Some (own reducers) else None))
          | None \<Rightarrow>
              (if \<not> no_keys then Combined_slices (own reducers) else Identity_reducer)))"

text \<open>
  \<open>onChange\<close> appends the listener to the array.
\<close>

definition onChange :: "'l \<Rightarrow> ('r, 'l) ReducerRegistry \<Rightarrow> ('r, 'l) ReducerRegistry" where
  "onChange listener reg = reg\<lparr>listeners := listeners reg @ [listener]\<rparr>"

text \<open>
  A registry for concrete runs: reducers and listeners are numbers, the reducer 1 is
  registered under the key \<open>admin\<close>, and the listeners 10 and 20 have been added, in this
  order.
\<close>

definition admin_registry :: "(nat, nat) ReducerRegistry" where
  "admin_registry =
     onChange 20 (onChange 10 (fst (the (register ''admin'' 1 new_ReducerRegistry))))"


section \<open>The store service: NgRedux (services/ng-redux.service.ts)\<close>

text \<open>
  An exception is either one of the \<open>Error\<close> objects that the repository throws,
  identified by its message, or whatever a collaborator throws. An action is an object
  with a \<open>type\<close> field, and possibly more fields.
\<close>

datatype 'x exn = Error string | Thrown 'x

record action =
  action_type :: string

text \<open>
  Redux (\<open>createStore\<close>, \<open>compose\<close> and the store object) and the \<open>ReducerService\<close>
  singleton are not part of the sources at hand, so what they compute is a parameter:
  \<^item> \<open>composeReducers reducer middleware\<close> is the root reducer that the reducer service
    returns;
  \<^item> \<open>createStore enhancers rootReducer initState\<close> is
    \<open>compose(...enhancers)(createStore)(rootReducer, initState)\<close>: a store object, or an
    exception;
  \<^item> \<open>getState\<close>, \<open>subscribe\<close> and \<open>store_dispatch\<close> are the methods of a store object;
    \<open>subscribe\<close> and \<open>store_dispatch\<close> return the store object as the call leaves it, and
    a dispatch may throw what the reducer throws.
\<close>

record ('r, 'm, 'e, 's, 'z, 'st, 'x) collaborators =
  composeReducers :: "'r \<Rightarrow> 'm list \<Rightarrow> 'r"
  createStore :: "'e list \<Rightarrow> 'r \<Rightarrow> 's \<Rightarrow> 'x + 'st"
  getState :: "'st \<Rightarrow> 's"
  subscribe :: "'st \<Rightarrow> 'st"
  store_dispatch :: "'z action_scheme \<Rightarrow> 'st \<Rightarrow> 'x + 'st"

text \<open>
  Calls that leave the modelled objects are recorded in order: calls of the reducer
  service, dispatches that reach the Redux store, calls of registry listeners, and
  change-detection notifications.
\<close>

datatype ('r, 'm, 'z, 'l) call =
    Compose_reducers 'r "'m list"
  | Replace_reducer "'r combined"
  | Store_dispatch "'z action_scheme"
  | Listener_call 'l
  | Cd_notify

text \<open>
  The state of the program. The fields \<open>ng_\<close> are those of the one \<open>NgRedux\<close> instance:
  \<open>_store\<close> (undefined until a store is set), the values pushed into the \<open>_store$\<close>
  subject, whether \<open>_unsubscribe\<close> is set, \<open>_isZoneless\<close>, whether an \<open>NgZone\<close> was
  injected and whether \<open>_cdNotifier\<close> is set. \<open>in_angular_zone\<close> is the answer of
  \<open>NgZone.isInAngularZone()\<close>. \<open>registry_instance\<close> is the static field
  \<open>ReducerRegistry._instance\<close>: the address of a registry object in \<open>registries\<close>, which
  holds every registry object created so far.
\<close>

record ('r, 'm, 'z, 'l, 's, 'st) world =
  ng_store :: "'st option"
  ng_store_subject :: "'s list"
  ng_unsubscribe :: bool
  ng_isZoneless :: bool
  ng_ngZone :: bool
  ng_cdNotifier :: bool
  in_angular_zone :: bool
  registry_instance :: "nat option"
  registries :: "('r, 'l) ReducerRegistry list"
  calls :: "('r, 'm, 'z, 'l) call list"

text \<open>
  \<open>setStore\<close> stores the reference, pushes the current state into the subject and
  subscribes a callback that pushes the state after every change of the store.
\<close>

definition setStore ::
  "('r, 'm, 'e, 's, 'z, 'st, 'x) collaborators \<Rightarrow> 'st \<Rightarrow> ('r, 'm, 'z, 'l, 's, 'st) world
     \<Rightarrow> ('r, 'm, 'z, 'l, 's, 'st) world" where
  "setStore ext store w =
     w\<lparr>ng_store := Some (subscribe ext store),
       ng_store_subject := ng_store_subject w @ [getState ext store],
       ng_unsubscribe := True\<rparr>"

text \<open>
  A method returns the state it leaves behind together with its outcome: \<open>Inr\<close> for a
  normal return, \<open>Inl\<close> for an exception. Whatever was changed before a \<open>throw\<close> stays
  changed in the returned state.
\<close>

definition configureStore ::
  "('r, 'm, 'e, 's, 'z, 'st, 'x) collaborators \<Rightarrow> 'r \<Rightarrow> 's \<Rightarrow> 'm list \<Rightarrow> 'e list
     \<Rightarrow> ('r, 'm, 'z, 'l, 's, 'st) world
     \<Rightarrow> ('r, 'm, 'z, 'l, 's, 'st) world \<times> ('x exn + unit)" where
  "configureStore ext reducer initState middleware enhancers w =
     (if ng_store w \<noteq> None then (w, Inl (Error ''Store already initialize!''))
      else
        (let rootReducer = composeReducers ext reducer middleware;
             w1 = w\<lparr>calls := calls w @ [Compose_reducers reducer middleware]\<rparr>
         in (case createStore ext enhancers rootReducer initState of
               Inl x \<Rightarrow> (w1, Inl (Thrown x))
             | Inr store \<Rightarrow> (setStore ext store w1, Inr ()))))"

text \<open>
  \<open>this._store.dispatch(action)\<close>: the action reaches the Redux store; when the store
  returns, the callback that \<open>setStore\<close> subscribed pushes the new state into the subject.
\<close>

definition dispatch_to_store ::
  "('r, 'm, 'e, 's, 'z, 'st, 'x) collaborators \<Rightarrow> 'z action_scheme \<Rightarrow> 'st
     \<Rightarrow> ('r, 'm, 'z, 'l, 's, 'st) world
     \<Rightarrow> ('r, 'm, 'z, 'l, 's, 'st) world \<times> ('x exn + 'z action_scheme)" where
  "dispatch_to_store ext act store w =
     (let w1 = w\<lparr>calls := calls w @ [Store_dispatch act]\<rparr>
      in (case store_dispatch ext act store of
            Inl x \<Rightarrow> (w1, Inl (Thrown x))
          | Inr store' \<Rightarrow>
              (w1\<lparr>ng_store := Some store',
                  ng_store_subject := ng_store_subject w1 @ [getState ext store']\<rparr>,
               Inr act)))"

text \<open>
  \<open>dispatch\<close> throws before a store is set. Otherwise it dispatches inside
  \<open>ngZone.run\<close> (zone mode, called from outside the zone), or directly, and then
  notifies change detection in zoneless mode.
\<close>

definition dispatch ::
  "('r, 'm, 'e, 's, 'z, 'st, 'x) collaborators \<Rightarrow> 'z action_scheme
     \<Rightarrow> ('r, 'm, 'z, 'l, 's, 'st) world
     \<Rightarrow> ('r, 'm, 'z, 'l, 's, 'st) world \<times> ('x exn + 'z action_scheme)" where
  "dispatch ext act w =
     (case ng_store w of
        None \<Rightarrow> (w, Inl (Error ''Dispatch failed: store instance not initialize.''))
      | Some store \<Rightarrow>
          (if \<not> ng_isZoneless w \<and> ng_ngZone w \<and> \<not> in_angular_zone w
           then dispatch_to_store ext act store w
           else
             (let (w1, result) = dispatch_to_store ext act store w
              in (case result of
                    Inl x \<Rightarrow> (w1, Inl x)
                  | Inr a \<Rightarrow>
                      (if ng_isZoneless w1 \<and> ng_cdNotifier w1
                       then (w1\<lparr>calls := calls w1 @ [Cd_notify]\<rparr>, Inr a)
                       else (w1, Inr a))))))"

text \<open>
  The program before anything is configured: a new \<open>NgRedux\<close> instance (the constructor
  always sets a change-detection notifier) and no registry object.
\<close>

definition initial_world :: "bool \<Rightarrow> bool \<Rightarrow> bool \<Rightarrow> ('r, 'm, 'z, 'l, 's, 'st) world" where
  "initial_world zoneless ngZone in_zone =
     \<lparr>ng_store = None, ng_store_subject = [], ng_unsubscribe = False,
      ng_isZoneless = zoneless, ng_ngZone = ngZone, ng_cdNotifier = True,
      in_angular_zone = in_zone, registry_instance = None, registries = [], calls = []\<rparr>"

text \<open>
  A small Redux for concrete runs: the store object is a counter, the initial state is
  the counter's first value, and every dispatch adds one.
\<close>

definition counter_redux :: "(nat, nat, nat, nat, unit, nat, unit) collaborators" where
  "counter_redux =
     \<lparr>composeReducers = (\<lambda>reducer middleware. reducer),
      createStore = (\<lambda>enhancers rootReducer initState. Inr initState),
      getState = (\<lambda>store. store),
      subscribe = (\<lambda>store. store),
      store_dispatch = (\<lambda>act store. Inr (Suc store))\<rparr>"

definition counter_world :: "(nat, nat, unit, nat, nat, nat) world" where
  "counter_world = initial_world True False False"


section \<open>Loading a reducer at run time: loadReducer (lazy/lazy-reducer.ts)\<close>

text \<open>
  \<open>ReducerRegistry.getInstance\<close> creates the singleton on first use. It returns the
  address of the registry object.
\<close>

definition getInstance ::
  "('r, 'm, 'z, 'l, 's, 'st) world \<Rightarrow> nat \<times> ('r, 'm, 'z, 'l, 's, 'st) world" where
  "getInstance w =
     (case registry_instance w of
        Some a \<Rightarrow> (a, w)
      | None \<Rightarrow>
          (length (registries w),
           w\<lparr>registries := registries w @ [new_ReducerRegistry],
             registry_instance := Some (length (registries w))\<rparr>))"

text \<open>
  A method call \<open>registry.m(...)\<close> on the registry object at address \<open>a\<close>: the object is
  updated in place and the listeners it called are recorded. Where the method of the
  registry leaves its result open (\<open>None\<close>), so does the call.
\<close>

definition call_registry ::
  "(('r, 'l) ReducerRegistry \<Rightarrow> (('r, 'l) ReducerRegistry \<times> 'l list) option) \<Rightarrow> nat
     \<Rightarrow> ('r, 'm, 'z, 'l, 's, 'st) world \<Rightarrow> ('r, 'm, 'z, 'l, 's, 'st) world option" where
  "call_registry m a w =
     (case m (registries w ! a) of
        None \<Rightarrow> None
      | Some (reg', called) \<Rightarrow>
          Some (w\<lparr>registries := (registries w)[a := reg'],
                  calls := calls w @ map Listener_call called\<rparr>))"

text \<open>
  Modelled from the spec: \<open>ReducerService.replaceReducer\<close>, which is not among the
  sources at hand, swaps the active root reducer for the next dispatch onward and
  returns. The call \<open>reducerService.replaceReducer(r)\<close> is recorded with its argument.
\<close>

definition replaceReducer ::
  "'r combined \<Rightarrow> ('r, 'm, 'z, 'l, 's, 'st) world \<Rightarrow> ('r, 'm, 'z, 'l, 's, 'st) world" where
  "replaceReducer r w = w\<lparr>calls := calls w @ [Replace_reducer r]\<rparr>"

text \<open>
  The closure that \<open>loadReducer\<close> returns. It has captured the registry object (its
  address) and the key.
\<close>

definition unloadReducer ::
  "nat \<Rightarrow> string \<Rightarrow> ('r, 'm, 'z, 'l, 's, 'st) world
     \<Rightarrow> ('r, 'm, 'z, 'l, 's, 'st) world option" where
  "unloadReducer registry key w =
     (case call_registry (unregister key) registry w of
        None \<Rightarrow> None
      | Some w1 \<Rightarrow>
          (let updatedReducer = getCombinedReducer (registries w1 ! registry)
           in Some (replaceReducer updatedReducer w1)))"

definition loadReducer ::
  "('r, 'm, 'e, 's, unit, 'st, 'x) collaborators \<Rightarrow> string \<Rightarrow> 'r
     \<Rightarrow> ('r, 'm, unit, 'l, 's, 'st) world
     \<Rightarrow> (('r, 'm, unit, 'l, 's, 'st) world
         \<times> ('x exn + (('r, 'm, unit, 'l, 's, 'st) world
                        \<Rightarrow> ('r, 'm, unit, 'l, 's, 'st) world option))) option"
  where
  "loadReducer ext key reducer w =
     (let (registry, w1) = getInstance w
      in (case call_registry (register key reducer) registry w1 of
            None \<Rightarrow> None
          | Some w2 \<Rightarrow>
              (let combinedReducer = getCombinedReducer (registries w2 ! registry);
                   w3 = replaceReducer combinedReducer w2;
                   (w4, dispatched) =
                     dispatch ext \<lparr>action_type = ''@@LAZY_REDUCER/INIT/'' @ key\<rparr> w3
               in (case dispatched of
                     Inl x \<Rightarrow> Some (w4, Inl x)
                   | Inr a \<Rightarrow> Some (w4, Inr (unloadReducer registry key))))))"

text \<open>
  The address held by the static field points to an object that exists, and the
  \<open>reducerMap\<close> of that object has the prototype of an object literal. The states reached
  from \<open>initial_world\<close> without a registration under the key \<open>__proto__\<close> are of this kind.
\<close>

definition registry_valid :: "('r, 'm, 'z, 'l, 's, 'st) world \<Rightarrow> bool" where
  "registry_valid w =
     (case registry_instance w of
        None \<Rightarrow> True
      | Some a \<Rightarrow> a < length (registries w)
                  \<and> prototype (reducerMap (registries w ! a)) = None)"

text \<open>
  For concrete runs: a state in which a store is configured and a registry with the base
  reducer 1 and the listener 10 exists, and a Redux whose store throws at every dispatch,
  as a store does when its reducer throws.
\<close>

definition configured_world :: "(nat, nat, unit, nat, nat, nat) world" where
  "configured_world =
     (fst (configureStore counter_redux 1 5 [] [] counter_world))
       \<lparr>registry_instance := Some 0,
        registries := [onChange 10 (setBaseReducer 1 new_ReducerRegistry)]\<rparr>"

definition throwing_redux :: "(nat, nat, nat, nat, unit, nat, unit) collaborators" where
  "throwing_redux = counter_redux\<lparr>store_dispatch := (\<lambda>act store. Inl ())\<rparr>"


section \<open>Memoized selectors: createSelector (typed/create-selector.ts)\<close>

text \<open>
  A memoized selector is a closure over the input selectors, the result function and
  three variables: \<open>lastInputs\<close> and \<open>lastResult\<close> (both \<open>undefined\<close> at first) and
  the counter \<open>recomputations\<close>. The input selectors and the result function are
  functions of the caller. A call of one of them may read and change the state of the
  rest of the program (type \<open>'h\<close>: the objects created so far, counters, caches), and it
  either returns a value (\<open>Inr\<close>) or throws (\<open>Inl\<close>). The three variables are local to the
  closure: a callback reaches them only by calling the memoized selector or its methods
  itself, which the model leaves out. Input selectors return values of type \<open>'r\<close>; the
  result function receives the inputs positionally, which is a list here.
  \<open>createSelector\<close> takes the input selectors and, as its last argument, the result
  function; the implementation accepts any number of input selectors.
\<close>

record ('s, 'h, 'x, 'r, 'res) selector =
  selectors :: "('s \<Rightarrow> 'h \<Rightarrow> ('x + 'r) \<times> 'h) list"
  resultFn :: "'r list \<Rightarrow> 'h \<Rightarrow> ('x + 'res) \<times> 'h"
  lastInputs :: "'r list option"
  lastResult :: "'res option"
  recomputations :: nat

definition createSelector ::
  "('s \<Rightarrow> 'h \<Rightarrow> ('x + 'r) \<times> 'h) list \<Rightarrow> ('r list \<Rightarrow> 'h \<Rightarrow> ('x + 'res) \<times> 'h)
     \<Rightarrow> ('s, 'h, 'x, 'r, 'res) selector" where
  "createSelector args f =
     \<lparr>selectors = args, resultFn = f, lastInputs = None, lastResult = None,
      recomputations = 0\<rparr>"

text \<open>
  \<open>selectors.map(sel => sel(state))\<close> calls the input selectors in order. The first one
  that throws ends the call.
\<close>

fun call_selectors ::
  "('s \<Rightarrow> 'h \<Rightarrow> ('x + 'r) \<times> 'h) list \<Rightarrow> 's \<Rightarrow> 'h \<Rightarrow> ('x + 'r list) \<times> 'h" where
  "call_selectors [] state h = (Inr [], h)"
| "call_selectors (sel # rest) state h =
     (case sel state h of
        (Inl x, h1) \<Rightarrow> (Inl x, h1)
      | (Inr v, h1) \<Rightarrow>
          (case call_selectors rest state h1 of
             (Inl x, h2) \<Rightarrow> (Inl x, h2)
           | (Inr vs, h2) \<Rightarrow> (Inr (v # vs), h2)))"

text \<open>
  The loop \<open>for (let i = 0; i < currentInputs.length; i++)\<close> with its \<open>break\<close>, started at
  index \<open>i\<close>: the final value of \<open>allEqual\<close>. The comparison \<open>!==\<close> is the language's, on
  whatever values the input selectors return; \<open>strict_equals\<close> stands for \<open>===\<close>.
\<close>

function allEqual_from :: "('r \<Rightarrow> 'r \<Rightarrow> bool) \<Rightarrow> nat \<Rightarrow> 'r list \<Rightarrow> 'r list \<Rightarrow> bool" where
  "allEqual_from strict_equals i currentInputs previous =
     (if i < length currentInputs
      then (if \<not> strict_equals (currentInputs ! i) (previous ! i) then False
            else allEqual_from strict_equals (i + 1) currentInputs previous)
      else True)"
  by pat_completeness auto
termination
  by (relation "measure (\<lambda>(strict_equals, i, currentInputs, previous). length currentInputs - i)")
     auto

declare allEqual_from.simps [simp del]

text \<open>
  A call of the memoized selector. The claim counts the invocations of the result
  function, so every invocation is recorded with its arguments. A call takes the
  closure's variables, the record so far and the state of the rest of the program, and
  returns all three as the call leaves them, together with its outcome: an exception, or
  the returned value, where \<open>None\<close> is \<open>undefined\<close>, the value of \<open>lastResult\<close> as long as
  no result has been stored.
\<close>

definition memoizedSelector ::
  "('r \<Rightarrow> 'r \<Rightarrow> bool) \<Rightarrow> ('s, 'h, 'x, 'r, 'res) selector \<times> 'r list list \<times> 'h \<Rightarrow> 's
     \<Rightarrow> (('s, 'h, 'x, 'r, 'res) selector \<times> 'r list list \<times> 'h) \<times> ('x + 'res option)" where
  "memoizedSelector strict_equals c state =
     (let (sel, invoked, h) = c
      in (case call_selectors (selectors sel) state h of
            (Inl x, h1) \<Rightarrow> ((sel, invoked, h1), Inl x)
          | (Inr currentInputs, h1) \<Rightarrow>
              if (case lastInputs sel of
                    None \<Rightarrow> False
                  | Some previous \<Rightarrow>
                      length currentInputs = length previous
                      \<and> allEqual_from strict_equals 0 currentInputs previous)
              then ((sel, invoked, h1), Inr (lastResult sel))
              else
                (let sel1 = sel\<lparr>lastInputs := Some currentInputs,
                               recomputations := recomputations sel + 1\<rparr>
                 in (case resultFn sel currentInputs h1 of
                       (Inl x, h2) \<Rightarrow> ((sel1, invoked @ [currentInputs], h2), Inl x)
                     | (Inr result, h2) \<Rightarrow>
                         (let sel2 = sel1\<lparr>lastResult := Some result\<rparr>
                          in ((sel2, invoked @ [currentInputs], h2),
                              Inr (lastResult sel2)))))))"

text \<open>
  What a call leaves behind, the value it returns, and the inputs that the input
  selectors give at the time of a call.
\<close>

definition after_call ::
  "('r \<Rightarrow> 'r \<Rightarrow> bool) \<Rightarrow> ('s, 'h, 'x, 'r, 'res) selector \<times> 'r list list \<times> 'h \<Rightarrow> 's
     \<Rightarrow> ('s, 'h, 'x, 'r, 'res) selector \<times> 'r list list \<times> 'h" where
  "after_call strict_equals c state = fst (memoizedSelector strict_equals c state)"

definition returned ::
  "('r \<Rightarrow> 'r \<Rightarrow> bool) \<Rightarrow> ('s, 'h, 'x, 'r, 'res) selector \<times> 'r list list \<times> 'h \<Rightarrow> 's
     \<Rightarrow> 'x + 'res option" where
  "returned strict_equals c state = snd (memoizedSelector strict_equals c state)"

definition current_inputs ::
  "('s, 'h, 'x, 'r, 'res) selector \<times> 'r list list \<times> 'h \<Rightarrow> 's \<Rightarrow> 'x + 'r list" where
  "current_inputs c state = fst (call_selectors (selectors (fst c)) state (snd (snd c)))"

text \<open>
  For concrete runs: values are numbers, among them \<open>NaN\<close>, and references to objects;
  \<open>===\<close> holds between equal numbers other than \<open>NaN\<close> and between references to the same
  object. The state of the rest of the program is the number of objects created so far.
  A state has the fields \<open>x\<close> and \<open>y\<close>. The input selectors are \<open>s => s.x\<close>, \<open>s => s.y\<close>,
  \<open>s => [s.x]\<close>, which returns a new array at every call, and one that throws; the
  result functions are \<open>(...inputs) => inputs.length\<close> and one that throws.
\<close>

datatype js_value = NaN | Num int | Ref nat

fun strict_equals_value :: "js_value \<Rightarrow> js_value \<Rightarrow> bool" where
  "strict_equals_value (Num a) (Num b) = (a = b)"
| "strict_equals_value (Ref a) (Ref b) = (a = b)"
| "strict_equals_value a b = False"

definition select_x :: "js_value \<times> js_value \<Rightarrow> nat \<Rightarrow> (unit + js_value) \<times> nat" where
  "select_x state h = (Inr (fst state), h)"

definition select_y :: "js_value \<times> js_value \<Rightarrow> nat \<Rightarrow> (unit + js_value) \<times> nat" where
  "select_y state h = (Inr (snd state), h)"

definition select_new_array :: "js_value \<times> js_value \<Rightarrow> nat \<Rightarrow> (unit + js_value) \<times> nat" where
  "select_new_array state h = (Inr (Ref h), Suc h)"

definition select_throwing :: "js_value \<times> js_value \<Rightarrow> nat \<Rightarrow> (unit + js_value) \<times> nat" where
  "select_throwing state h = (Inl (), h)"

definition count_inputs :: "js_value list \<Rightarrow> nat \<Rightarrow> (unit + nat) \<times> nat" where
  "count_inputs inputs h = (Inr (length inputs), h)"

definition throwing_result :: "js_value list \<Rightarrow> nat \<Rightarrow> (unit + nat) \<times> nat" where
  "throwing_result inputs h = (Inl (), h)"

text \<open>
  The selector of \<open>x\<close> and \<open>y\<close> with the counting result function, when new and after a
  call with the state \<open>{x: 1, y: 2}\<close>.
\<close>

definition xy_selector :: "(js_value \<times> js_value, nat, unit, js_value, nat) selector" where
  "xy_selector = createSelector [select_x, select_y] count_inputs"

definition xy_selector_called :: "(js_value \<times> js_value, nat, unit, js_value, nat) selector" where
  "xy_selector_called =
     xy_selector\<lparr>lastInputs := Some [Num 1, Num 2], recomputations := 1, lastResult := Some 2\<rparr>"


section \<open>Entity adapter: createEntityAdapter (entity/entity-adapter.ts)\<close>

text \<open>
  An entity is an object: a finite map from field names \<open>'f\<close> to values \<open>'v\<close>, its own
  properties. An entity state has the array \<open>ids\<close> and the dictionary \<open>entities\<close>, a plain
  object that holds each entity under a property key. Ids are the strings and numbers
  that \<open>selectId\<close> returns and that the callers pass (type \<open>'k\<close>). The adapter uses two
  operations of the language on them: the conversion of an id to a property key in
  \<open>entities[id]\<close>, by which the number 1 and the string \<open>'1'\<close> name one property, and
  the comparison \<open>!==\<close> of two ids, by which they differ. Both are parameters of the model.
  The operations are typed on \<open>EntityState<T>\<close>, so a state has these two fields.
\<close>

type_synonym ('f, 'v) entity = "'f \<rightharpoonup> 'v"

record 'k id_language =
  property_key :: "'k \<Rightarrow> string"
  strictly_equal :: "'k \<Rightarrow> 'k \<Rightarrow> bool"

record ('k, 'f, 'v) EntityState =
  ids :: "'k list"
  entities :: "('f, 'v) entity dictionary"

text \<open>
  The closure of \<open>createEntityAdapter\<close> holds \<open>selectId\<close> (the configured function, or
  \<open>entity => entity.id\<close> when none is given) and the optional \<open>sortComparer\<close>. Both are
  functions of the caller on entities; the model takes them as functions that return.
  The number that \<open>sortComparer\<close> returns is an integer here, of which the sort reads the
  sign. An update is an object with the fields \<open>id\<close> and \<open>changes\<close>, the latter a
  \<open>Partial<T>\<close>: some of the fields, with new values.
\<close>

record ('k, 'f, 'v) adapter =
  selectId :: "('f, 'v) entity \<Rightarrow> 'k"
  sortComparer :: "(('f, 'v) entity \<Rightarrow> ('f, 'v) entity \<Rightarrow> int) option"

record ('k, 'f, 'v) update =
  update_id :: 'k
  changes :: "('f, 'v) entity"

text \<open>
  \<open>Array.prototype.sort(compareFn)\<close> is the language's. For a comparator that is
  consistent on the elements of the array (ECMAScript, \<open>Array.prototype.sort\<close>: it is
  reflexive and symmetric where it returns 0, and transitive where it returns 0, a
  negative or a positive number) the result is the one stable sorted arrangement, which
  the stable insertion sort below computes. For another comparator the language leaves the order
  to the implementation, and so does the model (\<open>None\<close>), except for arrays of fewer than
  two elements, which have one arrangement.
\<close>

fun insert_with :: "('a \<Rightarrow> 'a \<Rightarrow> int) \<Rightarrow> 'a \<Rightarrow> 'a list \<Rightarrow> 'a list" where
  "insert_with cmp x [] = [x]"
| "insert_with cmp x (y # ys) =
     (if cmp x y \<le> 0 then x # y # ys else y # insert_with cmp x ys)"

definition sort_with :: "('a \<Rightarrow> 'a \<Rightarrow> int) \<Rightarrow> 'a list \<Rightarrow> 'a list" where
  "sort_with cmp xs = foldr (insert_with cmp) xs []"

definition consistent_on :: "('a \<Rightarrow> 'a \<Rightarrow> int) \<Rightarrow> 'a list \<Rightarrow> bool" where
  "consistent_on cmp xs =
     list_all (\<lambda>a.
       cmp a a = 0
       \<and> list_all (\<lambda>b.
            (cmp a b = 0 \<longrightarrow> cmp b a = 0)
            \<and> list_all (\<lambda>c.
                 (cmp a b = 0 \<and> cmp b c = 0 \<longrightarrow> cmp a c = 0)
                 \<and> (cmp a b < 0 \<and> cmp b c < 0 \<longrightarrow> cmp a c < 0)
                 \<and> (cmp a b > 0 \<and> cmp b c > 0 \<longrightarrow> cmp a c > 0)) xs) xs) xs"

definition sort_array :: "('a \<Rightarrow> 'a \<Rightarrow> int) \<Rightarrow> 'a list \<Rightarrow> 'a list option" where
  "sort_array cmp xs =
     (if length xs < 2 \<or> consistent_on cmp xs then Some (sort_with cmp xs) else None)"

text \<open>
  \<open>state.ids.map(id => state.entities[id])\<close> is the list of what the lookups of the ids
  give, in the order of \<open>ids\<close>. \<open>filter(Boolean)\<close> drops the \<open>undefined\<close> ones and keeps the
  entities. It also keeps a member of \<open>Object.prototype\<close>, which is no entity: the list
  then goes to \<open>selectId\<close> and \<open>sortComparer\<close> with an object outside their parameter
  type, and the model leaves the result open (\<open>None\<close>), as it does for a replaced prototype.
\<close>

definition listed ::
  "'k id_language \<Rightarrow> ('k, 'f, 'v) EntityState \<Rightarrow> ('f, 'v) entity property list" where
  "listed L state = map (\<lambda>id'. get_property (entities state) (property_key L id')) (ids state)"

fun filter_Boolean :: "'e property list \<Rightarrow> 'e list option" where
  "filter_Boolean [] = Some []"
| "filter_Boolean (Absent # xs) = filter_Boolean xs"
| "filter_Boolean (Own e # xs) = map_option (Cons e) (filter_Boolean xs)"
| "filter_Boolean (Member name # xs) = None"
| "filter_Boolean (Inherited p name # xs) = None"

text \<open>
  The operations. Each returns the new state, or \<open>None\<close> where the dictionary or the sort
  leaves the result open.
\<close>

definition sortEntities ::
  "'k id_language \<Rightarrow> ('k, 'f, 'v) adapter \<Rightarrow> ('k, 'f, 'v) EntityState
     \<Rightarrow> ('k, 'f, 'v) EntityState option" where
  "sortEntities L a state =
     (case sortComparer a of
        None \<Rightarrow> Some state
      | Some cmp \<Rightarrow>
          (case filter_Boolean (listed L state) of
             None \<Rightarrow> None
           | Some truthy \<Rightarrow>
               (case sort_array cmp truthy of
                  None \<Rightarrow> None
                | Some sortedEntities \<Rightarrow>
                    Some (state\<lparr>ids := map (selectId a) sortedEntities\<rparr>))))"

definition getInitialState :: "('k, 'f, 'v) EntityState" where
  "getInitialState = \<lparr>ids = [], entities = empty_object\<rparr>"

definition addOne ::
  "'k id_language \<Rightarrow> ('k, 'f, 'v) adapter \<Rightarrow> ('k, 'f, 'v) EntityState \<Rightarrow> ('f, 'v) entity
     \<Rightarrow> ('k, 'f, 'v) EntityState option" where
  "addOne L a state entity =
     (let id' = selectId a entity
      in (case is_present (get_property (entities state) (property_key L id')) of
            None \<Rightarrow> None
          | Some True \<Rightarrow> Some state
          | Some False \<Rightarrow>
              sortEntities L a
                \<lparr>ids = ids state @ [id'],
                 entities = define_property (property_key L id') entity
                              (spread_object (entities state))\<rparr>))"

text \<open>
  The loops \<open>for (const x of xs) result = f(result, x)\<close>.
\<close>

definition for_each ::
  "('s \<Rightarrow> 'x \<Rightarrow> 's option) \<Rightarrow> 's \<Rightarrow> 'x list \<Rightarrow> 's option" where
  "for_each f state xs =
     foldl (\<lambda>result x. case result of None \<Rightarrow> None | Some r \<Rightarrow> f r x) (Some state) xs"

definition addMany ::
  "'k id_language \<Rightarrow> ('k, 'f, 'v) adapter \<Rightarrow> ('k, 'f, 'v) EntityState
     \<Rightarrow> ('f, 'v) entity list \<Rightarrow> ('k, 'f, 'v) EntityState option" where
  "addMany L a state es = for_each (addOne L a) state es"

text \<open>
  The loop of \<open>setAll\<close> fills the new dictionary, by assignments, and the new array.
\<close>

definition setAll ::
  "'k id_language \<Rightarrow> ('k, 'f, 'v) adapter \<Rightarrow> ('k, 'f, 'v) EntityState
     \<Rightarrow> ('f, 'v) entity list \<Rightarrow> ('k, 'f, 'v) EntityState option" where
  "setAll L a state es =
     (case for_each
             (\<lambda>(newEntities, new_ids) entity.
                (let id' = selectId a entity
                 in (case assign_property (property_key L id') entity newEntities of
                       None \<Rightarrow> None
                     | Some assigned \<Rightarrow> Some (assigned, new_ids @ [id']))))
             (empty_object, []) es of
        None \<Rightarrow> None
      | Some (newEntities, new_ids) \<Rightarrow>
          sortEntities L a \<lparr>ids = new_ids, entities = newEntities\<rparr>)"

definition setOne ::
  "'k id_language \<Rightarrow> ('k, 'f, 'v) adapter \<Rightarrow> ('k, 'f, 'v) EntityState \<Rightarrow> ('f, 'v) entity
     \<Rightarrow> ('k, 'f, 'v) EntityState option" where
  "setOne L a state entity =
     (let id' = selectId a entity
      in (case is_present (get_property (entities state) (property_key L id')) of
            None \<Rightarrow> None
          | Some exists \<Rightarrow>
              sortEntities L a
                \<lparr>ids = (if exists then ids state else ids state @ [id']),
                 entities = define_property (property_key L id') entity
                              (spread_object (entities state))\<rparr>))"

definition removeOne ::
  "'k id_language \<Rightarrow> ('k, 'f, 'v) EntityState \<Rightarrow> 'k \<Rightarrow> ('k, 'f, 'v) EntityState option" where
  "removeOne L state id' =
     (case is_present (get_property (entities state) (property_key L id')) of
        None \<Rightarrow> None
      | Some False \<Rightarrow> Some state
      | Some True \<Rightarrow>
          Some \<lparr>ids = filter (\<lambda>existingId. \<not> strictly_equal L existingId id') (ids state),
                entities = delete_property (property_key L id')
                             (spread_object (entities state))\<rparr>)"

definition removeMany ::
  "'k id_language \<Rightarrow> ('k, 'f, 'v) EntityState \<Rightarrow> 'k list \<Rightarrow> ('k, 'f, 'v) EntityState option"
  where
  "removeMany L state remove_ids = for_each (removeOne L) state remove_ids"

definition removeAll :: "('k, 'f, 'v) EntityState \<Rightarrow> ('k, 'f, 'v) EntityState" where
  "removeAll state = \<lparr>ids = [], entities = empty_object\<rparr>"

text \<open>
  \<open>{ ...existing, ...update.changes }\<close> is the map \<open>existing ++ changes\<close>: the fields of
  \<open>changes\<close> override those of \<open>existing\<close>. When \<open>existing\<close> is a member of
  \<open>Object.prototype\<close>, which has no enumerable property of its own, it is \<open>changes\<close> alone.
\<close>

definition updateOne ::
  "'k id_language \<Rightarrow> ('k, 'f, 'v) adapter \<Rightarrow> ('k, 'f, 'v) EntityState
     \<Rightarrow> ('k, 'f, 'v) update \<Rightarrow> ('k, 'f, 'v) EntityState option" where
  "updateOne L a state upd =
     (let existing = get_property (entities state) (property_key L (update_id upd))
      in (case existing of
            Absent \<Rightarrow> Some state
          | Inherited p name \<Rightarrow> None
          | _ \<Rightarrow>
              (let updated = (case existing of Own e \<Rightarrow> e ++ changes upd | _ \<Rightarrow> changes upd)
               in sortEntities L a
                    \<lparr>ids = ids state,
                     entities = define_property (property_key L (update_id upd)) updated
                                  (spread_object (entities state))\<rparr>)))"

definition updateMany ::
  "'k id_language \<Rightarrow> ('k, 'f, 'v) adapter \<Rightarrow> ('k, 'f, 'v) EntityState
     \<Rightarrow> ('k, 'f, 'v) update list \<Rightarrow> ('k, 'f, 'v) EntityState option" where
  "updateMany L a state updates = for_each (updateOne L a) state updates"

definition upsertOne ::
  "'k id_language \<Rightarrow> ('k, 'f, 'v) adapter \<Rightarrow> ('k, 'f, 'v) EntityState \<Rightarrow> ('f, 'v) entity
     \<Rightarrow> ('k, 'f, 'v) EntityState option" where
  "upsertOne L a state entity =
     (let id' = selectId a entity
      in (case is_present (get_property (entities state) (property_key L id')) of
            None \<Rightarrow> None
          | Some True \<Rightarrow> setOne L a state entity
          | Some False \<Rightarrow> addOne L a state entity))"

definition upsertMany ::
  "'k id_language \<Rightarrow> ('k, 'f, 'v) adapter \<Rightarrow> ('k, 'f, 'v) EntityState
     \<Rightarrow> ('f, 'v) entity list \<Rightarrow> ('k, 'f, 'v) EntityState option" where
  "upsertMany L a state es = for_each (upsertOne L a) state es"


subsection \<open>Object identity of entity states\<close>

text \<open>
  Whether an operation returns the object it was given or a new one is not visible in
  the value it returns. For that, states live in a store of objects: a list, in which an
  address is an index. An object literal allocates a new object at the end of the store;
  no operation writes to an existing object. The operations below are the same code as
  above, on addresses: they return the address of the result and the store.
\<close>

type_synonym ('k, 'f, 'v) object_store = "('k, 'f, 'v) EntityState list"

definition new_object ::
  "('k, 'f, 'v) EntityState \<Rightarrow> ('k, 'f, 'v) object_store \<Rightarrow> nat \<times> ('k, 'f, 'v) object_store"
  where
  "new_object obj h = (length h, h @ [obj])"

definition sortEntities_at ::
  "'k id_language \<Rightarrow> ('k, 'f, 'v) adapter \<Rightarrow> nat \<Rightarrow> ('k, 'f, 'v) object_store
     \<Rightarrow> (nat \<times> ('k, 'f, 'v) object_store) option" where
  "sortEntities_at L a p h =
     (case sortComparer a of
        None \<Rightarrow> Some (p, h)
      | Some cmp \<Rightarrow>
          (let state = h ! p
           in (case filter_Boolean (listed L state) of
                 None \<Rightarrow> None
               | Some truthy \<Rightarrow>
                   (case sort_array cmp truthy of
                      None \<Rightarrow> None
                    | Some sortedEntities \<Rightarrow>
                        Some (new_object (state\<lparr>ids := map (selectId a) sortedEntities\<rparr>) h)))))"

definition addOne_at ::
  "'k id_language \<Rightarrow> ('k, 'f, 'v) adapter \<Rightarrow> nat \<Rightarrow> ('f, 'v) entity
     \<Rightarrow> ('k, 'f, 'v) object_store \<Rightarrow> (nat \<times> ('k, 'f, 'v) object_store) option" where
  "addOne_at L a p entity h =
     (let state = h ! p;
          id' = selectId a entity
      in (case is_present (get_property (entities state) (property_key L id')) of
            None \<Rightarrow> None
          | Some True \<Rightarrow> Some (p, h)
          | Some False \<Rightarrow>
              (let (newState, h') =
                     new_object
                       \<lparr>ids = ids state @ [id'],
                        entities = define_property (property_key L id') entity
                                     (spread_object (entities state))\<rparr> h
               in sortEntities_at L a newState h')))"

definition removeOne_at ::
  "'k id_language \<Rightarrow> nat \<Rightarrow> 'k \<Rightarrow> ('k, 'f, 'v) object_store
     \<Rightarrow> (nat \<times> ('k, 'f, 'v) object_store) option" where
  "removeOne_at L p id' h =
     (let state = h ! p
      in (case is_present (get_property (entities state) (property_key L id')) of
            None \<Rightarrow> None
          | Some False \<Rightarrow> Some (p, h)
          | Some True \<Rightarrow>
              Some (new_object
                      \<lparr>ids = filter (\<lambda>existingId. \<not> strictly_equal L existingId id')
                               (ids state),
                       entities = delete_property (property_key L id')
                                    (spread_object (entities state))\<rparr> h)))"

definition updateOne_at ::
  "'k id_language \<Rightarrow> ('k, 'f, 'v) adapter \<Rightarrow> nat \<Rightarrow> ('k, 'f, 'v) update
     \<Rightarrow> ('k, 'f, 'v) object_store \<Rightarrow> (nat \<times> ('k, 'f, 'v) object_store) option" where
  "updateOne_at L a p upd h =
     (let state = h ! p;
          existing = get_property (entities state) (property_key L (update_id upd))
      in (case existing of
            Absent \<Rightarrow> Some (p, h)
          | Inherited q name \<Rightarrow> None
          | _ \<Rightarrow>
              (let updated = (case existing of Own e \<Rightarrow> e ++ changes upd | _ \<Rightarrow> changes upd);
                   (newState, h') =
                     new_object
                       \<lparr>ids = ids state,
                        entities = define_property (property_key L (update_id upd)) updated
                                     (spread_object (entities state))\<rparr> h
               in sortEntities_at L a newState h')))"

subsection \<open>The invariant of entity states\<close>

text \<open>
  The invariant of the data model: \<open>ids\<close> has no duplicates and its members are exactly
  the keys of \<open>entities\<close>, each id taken as the property key it stands for.
\<close>

definition ids_match_entities :: "'k id_language \<Rightarrow> ('k, 'f, 'v) EntityState \<Rightarrow> bool" where
  "ids_match_entities L state =
     (distinct (ids state)
      \<and> set (map (property_key L) (ids state)) = dom (own (entities state)))"

text \<open>
  A list of lookups is sorted according to a comparator if no entity in it is followed,
  anywhere later, by one that the comparator puts strictly before it.
\<close>

fun entities_of :: "'e property list \<Rightarrow> 'e list" where
  "entities_of [] = []"
| "entities_of (Own e # xs) = e # entities_of xs"
| "entities_of (x # xs) = entities_of xs"

definition sorted_by :: "('e \<Rightarrow> 'e \<Rightarrow> int) \<Rightarrow> 'e property list \<Rightarrow> bool" where
  "sorted_by cmp xs = sorted_wrt (\<lambda>x y. cmp x y \<le> 0) (entities_of xs)"

subsection \<open>Users, for concrete runs\<close>

text \<open>
  The entities of the documentation and of the tests: users with the fields \<open>id\<close> and
  \<open>name\<close>. Values of fields, and so the ids, are \<open>undefined\<close>, integer numbers and strings.
  \<open>decimal\<close> is the conversion of an integer number to a string, for the numbers that
  the language writes in full, without an exponent; \<open>===\<close> on these values is equality.
\<close>

datatype field = Id | Name

datatype val = Undefined_val | Number int | Text string

function decimal_nat :: "nat \<Rightarrow> string" where
  "decimal_nat n =
     (if n < 10 then [''0123456789'' ! n]
      else decimal_nat (n div 10) @ [''0123456789'' ! (n mod 10)])"
  by pat_completeness auto
termination
  by (relation "measure (\<lambda>n. n)") auto

declare decimal_nat.simps [simp del]

definition decimal :: "int \<Rightarrow> string" where
  "decimal i = (if i < 0 then CHR ''-'' # decimal_nat (nat (- i)) else decimal_nat (nat i))"

definition key_of_val :: "val \<Rightarrow> string" where
  "key_of_val v =
     (case v of Undefined_val \<Rightarrow> ''undefined'' | Number i \<Rightarrow> decimal i | Text s \<Rightarrow> s)"

definition vals :: "val id_language" where
  "vals = \<lparr>property_key = key_of_val, strictly_equal = (=)\<rparr>"

text \<open>
  \<open>read f u\<close> is the property access \<open>u.f\<close>. The adapter \<open>users_by_id\<close> is
  \<open>createEntityAdapter({selectId: u => u.id})\<close>; \<open>users_by_name lc\<close> has in addition
  \<open>sortComparer: (a, b) => a.name.localeCompare(b.name)\<close>, where \<open>lc\<close> stands for
  \<open>localeCompare\<close>, a function of the language that depends on the locale. \<open>name_of u\<close>
  is the name of a user whose \<open>name\<close> is a string; for another entity the comparator of
  the source throws, and \<open>name_of\<close> is left unspecified. \<open>compare_codes\<close> compares strings
  character by character, by character code, as \<open>localeCompare\<close> orders the names used
  below.
\<close>

definition user :: "int \<Rightarrow> string \<Rightarrow> (field, val) entity" where
  "user i n = [Id \<mapsto> Number i, Name \<mapsto> Text n]"

definition read :: "field \<Rightarrow> (field, val) entity \<Rightarrow> val" where
  "read f u = (case u f of None \<Rightarrow> Undefined_val | Some v \<Rightarrow> v)"

definition name_of :: "(field, val) entity \<Rightarrow> string" where
  "name_of u = (case read Name u of Text s \<Rightarrow> s)"

definition users_by_id :: "(val, field, val) adapter" where
  "users_by_id = \<lparr>selectId = read Id, sortComparer = None\<rparr>"

definition by_name ::
  "(string \<Rightarrow> string \<Rightarrow> int) \<Rightarrow> (field, val) entity \<Rightarrow> (field, val) entity \<Rightarrow> int" where
  "by_name lc a b = lc (name_of a) (name_of b)"

definition users_by_name :: "(string \<Rightarrow> string \<Rightarrow> int) \<Rightarrow> (val, field, val) adapter" where
  "users_by_name lc = \<lparr>selectId = read Id, sortComparer = Some (by_name lc)\<rparr>"

fun compare_codes :: "string \<Rightarrow> string \<Rightarrow> int" where
  "compare_codes [] [] = 0"
| "compare_codes [] (y # ys) = - 1"
| "compare_codes (x # xs) [] = 1"
| "compare_codes (x # xs) (y # ys) =
     (if (of_char x :: nat) < of_char y then - 1
      else if (of_char y :: nat) < of_char x then 1
      else compare_codes xs ys)"

text \<open>
  States and calls for concrete runs:
  \<^item> \<open>alice_state\<close> holds the user 1, Alice, and \<open>alice_store\<close> is a store that holds it as
    its only object;
  \<^item> \<open>abc_state\<close> holds the users 1 A, 2 B and 3 C, in the order of their names;
  \<^item> \<open>move_id\<close> updates the user 3 with the changes \<open>{id: 1}\<close>, which gives \<open>moved_state\<close>.
\<close>

definition alice_state :: "(val, field, val) EntityState" where
  "alice_state =
     \<lparr>ids = [Number 1],
      entities = \<lparr>own = [''1'' \<mapsto> user 1 ''Alice''], prototype = None\<rparr>\<rparr>"

definition alice_store :: "(val, field, val) object_store" where
  "alice_store = [alice_state]"

definition abc_state :: "(val, field, val) EntityState" where
  "abc_state =
     \<lparr>ids = [Number 1, Number 2, Number 3],
      entities = \<lparr>own = [''1'' \<mapsto> user 1 ''A'', ''2'' \<mapsto> user 2 ''B'', ''3'' \<mapsto> user 3 ''C''],
                  prototype = None\<rparr>\<rparr>"

definition move_id :: "(val, field, val) update" where
  "move_id = \<lparr>update_id = Number 3, changes = [Id \<mapsto> Number 1]\<rparr>"

definition moved_state :: "(val, field, val) EntityState" where
  "moved_state =
     \<lparr>ids = [Number 1, Number 2, Number 1],
      entities = \<lparr>own = [''1'' \<mapsto> user 1 ''A'', ''2'' \<mapsto> user 2 ''B'', ''3'' \<mapsto> user 1 ''C''],
                  prototype = None\<rparr>\<rparr>"


section \<open>Properties of rehydrateState\<close>

text \<open>
  C10. Whenever the serialized input is \<open>null\<close>, \<open>undefined\<close> or the empty string,
  \<open>rehydrateState\<close> returns the fallback state and no deserializer is invoked.
\<close>

theorem rehydrateState_falsy_fallback:
  "falsy s \<Longrightarrow> rehydrateState json_parse s fallback deserializer = ([], Inr fallback)"
  by (simp add: rehydrateState_def)

theorem rehydrateState_falsy_fallback_witness:
  "falsy Null \<and> falsy Undefined \<and> falsy (Str '''')
   \<and> rehydrateState rejecting_parse Null (0::nat) (Some accepting_deserializer) = ([], Inr 0)
   \<and> rehydrateState rejecting_parse Undefined (0::nat) None = ([], Inr 0)
   \<and> rehydrateState rejecting_parse (Str '''') (0::nat) (Some accepting_deserializer) = ([], Inr 0)"
proof -
  have n: "falsy Null" and u: "falsy Undefined" and e: "falsy (Str '''')"
    by (simp_all add: falsy_def)
  show ?thesis
    using n u e
      rehydrateState_falsy_fallback [OF n, of rejecting_parse "0::nat" "Some accepting_deserializer"]
      rehydrateState_falsy_fallback [OF u, of rejecting_parse "0::nat" None]
      rehydrateState_falsy_fallback [OF e, of rejecting_parse "0::nat" "Some accepting_deserializer"]
    by simp
qed

text \<open>
  C8 (as amended). \<open>rehydrateState\<close> never throws, whatever its arguments. For every
  non-empty serialized string it returns the result of the deserializer (the custom one,
  or \<open>JSON.parse\<close> when none is given) when that succeeds, and the fallback state when
  that throws.
\<close>

theorem rehydrateState_nonempty_result:
  "(\<exists>v. snd (rehydrateState json_parse s fallback deserializer) = Inr v)
   \<and> (\<forall>raw. s = Str raw \<and> raw \<noteq> [] \<longrightarrow>
          (\<forall>v. snd (deserialize json_parse deserializer raw) = Inr v \<longrightarrow>
                snd (rehydrateState json_parse s fallback deserializer) = Inr v)
        \<and> (\<forall>e. snd (deserialize json_parse deserializer raw) = Inl e \<longrightarrow>
                snd (rehydrateState json_parse s fallback deserializer) = Inr fallback))"
  by (auto simp: rehydrateState_def falsy_def split: serialized.splits sum.splits prod.splits)

theorem rehydrateState_nonempty_result_witness:
  "Str ''{}'' = Str ''{}'' \<and> ''{}'' \<noteq> []
   \<and> snd (deserialize rejecting_parse (Some accepting_deserializer) ''{}'') = Inr 7
   \<and> snd (rehydrateState rejecting_parse (Str ''{}'') 0 (Some accepting_deserializer)) = Inr 7
   \<and> snd (deserialize rejecting_parse None ''{}'') = Inl ()
   \<and> snd (rehydrateState rejecting_parse (Str ''{}'') (0::nat) None) = Inr 0"
  using rehydrateState_nonempty_result
          [of rejecting_parse "Str ''{}''" "0::nat" "Some accepting_deserializer"]
        rehydrateState_nonempty_result
          [of rejecting_parse "Str ''{}''" "0::nat" None]
  by (simp add: deserialize_def rejecting_parse_def accepting_deserializer_def)

text \<open>
  C8 as stated fails at the empty string: a custom deserializer that succeeds on it is
  never asked, and the fallback state is returned instead of its result.
\<close>

theorem rehydrateState_empty_string_counterexample:
  "snd (deserialize rejecting_parse (Some accepting_deserializer) '''') = Inr 7
   \<and> snd (rehydrateState rejecting_parse (Str '''') (0::nat) (Some accepting_deserializer)) \<noteq> Inr 7"
  by (simp add: rehydrateState_def deserialize_def falsy_def accepting_deserializer_def)

section \<open>Properties of ReducerRegistry\<close>

lemma admin_registry_eq:
  "admin_registry
     = \<lparr>reducerMap = \<lparr>own = [''admin'' \<mapsto> 1], prototype = None\<rparr>, baseReducer = None,
        listeners = [10, 20]\<rparr>"
  by (simp add: admin_registry_def onChange_def register_def new_ReducerRegistry_def
      assign_property_def define_property_def empty_object_def notifyListeners_def)




section \<open>Properties of NgRedux.configureStore\<close>

text \<open>
  C5. Once a store is set, \<open>configureStore\<close> throws the error
  "Store already initialize!" and leaves the whole program state as it was: the store
  reference, the state of the store, its subscribers, and no collaborator is called.
  A \<open>configureStore\<close> call that returns normally sets the store, so any call after it
  behaves so.
\<close>

theorem configureStore_second_call_throws:
  "(ng_store w \<noteq> None \<longrightarrow>
      configureStore ext reducer' initState' middleware' enhancers' w
        = (w, Inl (Error ''Store already initialize!'')))
   \<and> (snd (configureStore ext reducer initState middleware enhancers w) = Inr () \<longrightarrow>
      configureStore ext reducer' initState' middleware' enhancers'
          (fst (configureStore ext reducer initState middleware enhancers w))
        = (fst (configureStore ext reducer initState middleware enhancers w),
           Inl (Error ''Store already initialize!'')))"
proof (intro conjI impI)
  assume "ng_store w \<noteq> None"
  then show "configureStore ext reducer' initState' middleware' enhancers' w
               = (w, Inl (Error ''Store already initialize!''))"
    by (simp add: configureStore_def)
next
  assume ok: "snd (configureStore ext reducer initState middleware enhancers w) = Inr ()"
  have "ng_store (fst (configureStore ext reducer initState middleware enhancers w)) \<noteq> None"
    using ok by (auto simp: configureStore_def setStore_def Let_def split: if_splits sum.splits)
  then show "configureStore ext reducer' initState' middleware' enhancers'
                 (fst (configureStore ext reducer initState middleware enhancers w))
               = (fst (configureStore ext reducer initState middleware enhancers w),
                  Inl (Error ''Store already initialize!''))"
    by (simp add: configureStore_def)
qed

theorem configureStore_second_call_throws_witness:
  "snd (configureStore counter_redux 1 5 [] [] counter_world) = Inr ()
   \<and> ng_store (fst (configureStore counter_redux 1 5 [] [] counter_world))
       \<noteq> None
   \<and> configureStore counter_redux 2 9 [] []
        (fst (configureStore counter_redux 1 5 [] [] counter_world))
      = (fst (configureStore counter_redux 1 5 [] [] counter_world),
         Inl (Error ''Store already initialize!''))"
proof -
  have ok: "snd (configureStore counter_redux 1 5 [] [] counter_world)
              = Inr ()"
    by (simp add: configureStore_def counter_redux_def counter_world_def initial_world_def setStore_def)
  have set: "ng_store (fst (configureStore counter_redux 1 5 [] []
                              counter_world)) \<noteq> None"
    by (simp add: configureStore_def counter_redux_def counter_world_def initial_world_def setStore_def)
  note general =
    configureStore_second_call_throws
      [where w = "fst (configureStore counter_redux 1 5 [] [] counter_world)"
         and ext = counter_redux and reducer' = 2 and initState' = 9
         and middleware' = "[]" and enhancers' = "[]"]
  note twice =
    configureStore_second_call_throws
      [where w = counter_world
         and ext = counter_redux and reducer = 1 and initState = 5
         and middleware = "[]" and enhancers = "[]" and reducer' = 2 and initState' = 9
         and middleware' = "[]" and enhancers' = "[]"]
  from general set twice ok show ?thesis
    by blast
qed

section \<open>Properties of loadReducer\<close>

lemma getInstance_valid:
  assumes "registry_valid w"
  shows "fst (getInstance w) < length (registries (snd (getInstance w)))"
    and "prototype (reducerMap (registries (snd (getInstance w)) ! fst (getInstance w))) = None"
  using assms
  by (simp_all add: registry_valid_def getInstance_def new_ReducerRegistry_def empty_object_def
      split: option.splits)

lemma getInstance_keeps:
  "calls (snd (getInstance w)) = calls w"
  "ng_store (snd (getInstance w)) = ng_store w"
  "ng_isZoneless (snd (getInstance w)) = ng_isZoneless w"
  "ng_cdNotifier (snd (getInstance w)) = ng_cdNotifier w"
  by (simp_all add: getInstance_def split: option.splits)

lemma replaceReducer_effect:
  "registries (replaceReducer r w) = registries w"
  "calls (replaceReducer r w) = calls w @ [Replace_reducer r]"
  "ng_store (replaceReducer r w) = ng_store w"
  "ng_isZoneless (replaceReducer r w) = ng_isZoneless w"
  "ng_cdNotifier (replaceReducer r w) = ng_cdNotifier w"
  by (simp_all add: replaceReducer_def)

lemma dispatch_effect:
  assumes "ng_store w = Some store" and "store_dispatch ext act store = Inr store'"
  shows "snd (dispatch ext act w) = Inr act"
    and "registries (fst (dispatch ext act w)) = registries w"
    and "calls (fst (dispatch ext act w)) =
           calls w @ [Store_dispatch act]
             @ (if ng_isZoneless w \<and> ng_cdNotifier w then [Cd_notify] else [])"
  using assms by (auto simp: dispatch_def dispatch_to_store_def Let_def)

lemma register_plain:
  assumes "prototype (reducerMap reg) = None" and "key \<noteq> ''__proto__''"
  shows "register key reducer reg
           = Some (reg\<lparr>reducerMap := define_property key reducer (reducerMap reg)\<rparr>,
                   listeners reg)"
  using assms by (simp add: register_def assign_property_def notifyListeners_def)

lemma unregister_registered:
  assumes "own (reducerMap reg) key \<noteq> None"
  shows "unregister key reg
           = Some (reg\<lparr>reducerMap := delete_property key (reducerMap reg)\<rparr>, listeners reg)"
  using assms
  by (auto simp: unregister_def get_property_def is_present_def notifyListeners_def)

lemma unregister_removes:
  assumes "unregister key reg = Some (reg', called)"
  shows "own (reducerMap reg') key = None"
  using assms
  by (auto simp: unregister_def get_property_def is_present_def delete_property_def Let_def
      split: option.splits bool.splits if_splits)

lemma unloadReducer_effect:
  assumes "unregister key (registries v ! a) = Some (reg', called)"
  shows "unloadReducer a key v
           = Some (v\<lparr>registries := (registries v)[a := reg'],
                     calls := calls v @ map Listener_call called
                                @ [Replace_reducer
                                     (getCombinedReducer ((registries v)[a := reg'] ! a))]\<rparr>)"
  using assms by (simp add: unloadReducer_def call_registry_def replaceReducer_def)


lemma configured_world_simps:
  "registry_instance configured_world = Some 0"
  "registries configured_world
     = [\<lparr>reducerMap = \<lparr>own = Map.empty, prototype = None\<rparr>, baseReducer = Some 1,
         listeners = [10]\<rparr>]"
  "ng_store configured_world = Some 5"
  "calls configured_world = [Compose_reducers 1 []]"
  "ng_isZoneless configured_world"
  "ng_cdNotifier configured_world"
  by (simp_all add: configured_world_def configureStore_def counter_redux_def counter_world_def
        initial_world_def setStore_def onChange_def setBaseReducer_def new_ReducerRegistry_def
        empty_object_def)

lemma configured_world_instance:
  "getInstance configured_world = (0, configured_world)"
  by (simp add: getInstance_def configured_world_simps)

lemma loaded_world_simps:
  "loadReducer counter_redux ''admin'' 2 configured_world \<noteq> None"
  "snd (the (loadReducer counter_redux ''admin'' 2 configured_world))
     = Inr (unloadReducer 0 ''admin'')"
  "registries (fst (the (loadReducer counter_redux ''admin'' 2 configured_world)))
     = [\<lparr>reducerMap = \<lparr>own = [''admin'' \<mapsto> 2], prototype = None\<rparr>, baseReducer = Some 1,
         listeners = [10]\<rparr>]"
  "calls (fst (the (loadReducer counter_redux ''admin'' 2 configured_world)))
     = [Compose_reducers 1 [], Listener_call 10,
        Replace_reducer (Base_then_slices 1 (Some [''admin'' \<mapsto> 2])),
        Store_dispatch \<lparr>action_type = ''@@LAZY_REDUCER/INIT/admin''\<rparr>, Cd_notify]"
  by (simp_all add: loadReducer_def configured_world_instance call_registry_def register_def
        assign_property_def define_property_def spread_object_def
        notifyListeners_def getCombinedReducer_def replaceReducer_def dispatch_def
        dispatch_to_store_def counter_redux_def configured_world_simps Let_def)



section \<open>Properties of createSelector\<close>

lemma allEqual_from_iff:
  "allEqual_from strict_equals i currentInputs previous
     = (\<forall>j. i \<le> j \<and> j < length currentInputs
             \<longrightarrow> strict_equals (currentInputs ! j) (previous ! j))"
proof (induction strict_equals i currentInputs previous rule: allEqual_from.induct)
  case (1 strict_equals i currentInputs previous)
  show ?case
  proof (cases "i < length currentInputs")
    case False
    then show ?thesis by (subst allEqual_from.simps) auto
  next
    case True
    show ?thesis
    proof (cases "strict_equals (currentInputs ! i) (previous ! i)")
      case False
      with True show ?thesis
        by (subst allEqual_from.simps) auto
    next
      case same: True
      have "allEqual_from strict_equals i currentInputs previous
              = allEqual_from strict_equals (i + 1) currentInputs previous"
        using True same by (subst allEqual_from.simps) simp
      also have "\<dots> = (\<forall>j. i + 1 \<le> j \<and> j < length currentInputs
                          \<longrightarrow> strict_equals (currentInputs ! j) (previous ! j))"
        using "1.IH" [OF True] same by simp
      also have "\<dots> = (\<forall>j. i \<le> j \<and> j < length currentInputs
                          \<longrightarrow> strict_equals (currentInputs ! j) (previous ! j))"
      proof (intro iffI allI impI)
        fix j
        assume rest: "\<forall>j. i + 1 \<le> j \<and> j < length currentInputs
                          \<longrightarrow> strict_equals (currentInputs ! j) (previous ! j)"
          and j: "i \<le> j \<and> j < length currentInputs"
        show "strict_equals (currentInputs ! j) (previous ! j)"
        proof (cases "j = i")
          case True
          with same show ?thesis by simp
        next
          case False
          with j have "i + 1 \<le> j" by simp
          with rest j show ?thesis by blast
        qed
      next
        fix j
        assume "\<forall>j. i \<le> j \<and> j < length currentInputs
                     \<longrightarrow> strict_equals (currentInputs ! j) (previous ! j)"
          and "i + 1 \<le> j \<and> j < length currentInputs"
        then show "strict_equals (currentInputs ! j) (previous ! j)" by simp
      qed
      finally show ?thesis .
    qed
  qed
qed

lemma allEqual_from_0:
  "(length currentInputs = length previous
    \<and> allEqual_from strict_equals 0 currentInputs previous)
     = list_all2 strict_equals currentInputs previous"
  by (auto simp: allEqual_from_iff list_all2_conv_all_nth)

lemma allEqual_from_list_all2:
  "length currentInputs = length previous \<Longrightarrow>
     allEqual_from strict_equals 0 currentInputs previous
       = list_all2 strict_equals currentInputs previous"
  using allEqual_from_0 [of currentInputs previous strict_equals] by simp

lemma memoizedSelector_hit:
  assumes "call_selectors (selectors sel) state h = (Inr cur, h1)"
    and "lastInputs sel = Some prev" and "list_all2 strict_equals cur prev"
  shows "memoizedSelector strict_equals (sel, invoked, h) state
           = ((sel, invoked, h1), Inr (lastResult sel))"
  using assms allEqual_from_0 [of cur prev strict_equals]
  by (simp add: memoizedSelector_def)

lemma memoizedSelector_miss:
  assumes "call_selectors (selectors sel) state h = (Inr cur, h1)"
    and "lastInputs sel = None
         \<or> (\<exists>prev. lastInputs sel = Some prev \<and> \<not> list_all2 strict_equals cur prev)"
  shows "memoizedSelector strict_equals (sel, invoked, h) state
           = (case resultFn sel cur h1 of
                (Inl x, h2) \<Rightarrow>
                  ((sel\<lparr>lastInputs := Some cur, recomputations := recomputations sel + 1\<rparr>,
                    invoked @ [cur], h2), Inl x)
              | (Inr v, h2) \<Rightarrow>
                  ((sel\<lparr>lastInputs := Some cur, recomputations := recomputations sel + 1,
                         lastResult := Some v\<rparr>,
                    invoked @ [cur], h2), Inr (Some v)))"
proof -
  have "\<not> (case lastInputs sel of
             None \<Rightarrow> False
           | Some previous \<Rightarrow>
               length cur = length previous \<and> allEqual_from strict_equals 0 cur previous)"
    using assms(2) by (auto simp: allEqual_from_0 split: option.splits)
  then show ?thesis
    using assms(1) by (simp add: memoizedSelector_def Let_def split: prod.splits sum.splits)
qed

lemma after_call_hit:
  assumes "call_selectors (selectors sel) state h = (Inr cur, h1)"
    and "lastInputs sel = Some prev" and "list_all2 strict_equals cur prev"
  shows "after_call strict_equals (sel, invoked, h) state = (sel, invoked, h1)"
  using memoizedSelector_hit [OF assms] by (simp add: after_call_def)

lemma after_call_miss:
  assumes "call_selectors (selectors sel) state h = (Inr cur, h1)"
    and "lastInputs sel = None
         \<or> (\<exists>prev. lastInputs sel = Some prev \<and> \<not> list_all2 strict_equals cur prev)"
  shows "fst (snd (after_call strict_equals (sel, invoked, h) state)) = invoked @ [cur]"
    and "lastInputs (fst (after_call strict_equals (sel, invoked, h) state)) = Some cur"
    and "selectors (fst (after_call strict_equals (sel, invoked, h) state)) = selectors sel"
    and "recomputations (fst (after_call strict_equals (sel, invoked, h) state))
           = recomputations sel + 1"
  using memoizedSelector_miss [OF assms, of invoked]
  by (simp_all add: after_call_def split: prod.splits sum.splits)

lemma after_call_counts:
  "recomputations (fst c) = length (fst (snd c)) \<Longrightarrow>
     recomputations (fst (after_call strict_equals c state))
       = length (fst (snd (after_call strict_equals c state)))"
  by (cases c)
     (simp add: after_call_def memoizedSelector_def Let_def split: prod.splits sum.splits)

lemma foldl_after_call_counts:
  "recomputations (fst c) = length (fst (snd c)) \<Longrightarrow>
     recomputations (fst (foldl (after_call strict_equals) c states))
       = length (fst (snd (foldl (after_call strict_equals) c states)))"
  by (induction states arbitrary: c) (simp_all add: after_call_counts)

text \<open>
  C4 (as amended). A memoized selector built from any number of input selectors calls
  them on the state; if one throws, its exception reaches the caller and nothing else
  happens. When they have returned, it compares the current inputs element-wise by
  \<open>===\<close> with \<open>lastInputs\<close>, the inputs of the latest invocation of the result function. If every input is \<open>===\<close> to the stored one, it returns the cached
  result, and the result function is not invoked (the record of invocations, the counter
  and the cache stay as they are). Otherwise the result function is invoked once, on the
  current inputs, and the counter goes up by one; its result is cached and returned, or
  its exception reaches the caller. So two calls of a new selector with the same state
  invoke the result function exactly once if every input of the second call is \<open>===\<close> to
  the one of the first call, and twice if one is not. The counter \<open>recomputations\<close> is the
  number of invocations, after any sequence of calls.
\<close>

theorem createSelector_memoization:
  "(call_selectors (selectors sel) state h = (Inr cur, h')
    \<and> lastInputs sel = Some prev \<and> list_all2 strict_equals cur prev \<longrightarrow>
      memoizedSelector strict_equals (sel, invoked, h) state
        = ((sel, invoked, h'), Inr (lastResult sel)))
   \<and> (call_selectors (selectors sel) state h = (Inr cur, h')
      \<and> (lastInputs sel = None
          \<or> (\<exists>prev. lastInputs sel = Some prev \<and> \<not> list_all2 strict_equals cur prev))
      \<and> resultFn sel cur h' = (Inr v, h'') \<longrightarrow>
      memoizedSelector strict_equals (sel, invoked, h) state
        = ((sel\<lparr>lastInputs := Some cur, recomputations := recomputations sel + 1,
                lastResult := Some v\<rparr>,
            invoked @ [cur], h''), Inr (Some v)))
   \<and> (call_selectors (selectors sel) state h = (Inr cur, h')
      \<and> (lastInputs sel = None
          \<or> (\<exists>prev. lastInputs sel = Some prev \<and> \<not> list_all2 strict_equals cur prev))
      \<and> resultFn sel cur h' = (Inl x, h'') \<longrightarrow>
      memoizedSelector strict_equals (sel, invoked, h) state
        = ((sel\<lparr>lastInputs := Some cur, recomputations := recomputations sel + 1\<rparr>,
            invoked @ [cur], h''), Inl x))
   \<and> (call_selectors (selectors sel) state h = (Inl x, h') \<longrightarrow>
      memoizedSelector strict_equals (sel, invoked, h) state = ((sel, invoked, h'), Inl x))
   \<and> (current_inputs (createSelector args f, [], h) state = Inr first
      \<and> current_inputs (after_call strict_equals (createSelector args f, [], h) state) state
          = Inr second \<longrightarrow>
      fst (snd (after_call strict_equals
                  (after_call strict_equals (createSelector args f, [], h) state) state))
        = (if list_all2 strict_equals second first then [first] else [first, second]))
   \<and> recomputations (fst (foldl (after_call strict_equals) (createSelector args f, [], h) states))
       = length (fst (snd (foldl (after_call strict_equals)
                             (createSelector args f, [], h) states)))"
proof (intro conjI impI)
  assume "call_selectors (selectors sel) state h = (Inr cur, h')
          \<and> lastInputs sel = Some prev \<and> list_all2 strict_equals cur prev"
  then show "memoizedSelector strict_equals (sel, invoked, h) state
               = ((sel, invoked, h'), Inr (lastResult sel))"
    by (simp add: memoizedSelector_hit)
next
  assume a: "call_selectors (selectors sel) state h = (Inr cur, h')
      \<and> (lastInputs sel = None
          \<or> (\<exists>prev. lastInputs sel = Some prev \<and> \<not> list_all2 strict_equals cur prev))
      \<and> resultFn sel cur h' = (Inr v, h'')"
  then have "call_selectors (selectors sel) state h = (Inr cur, h')"
    and "lastInputs sel = None
         \<or> (\<exists>prev. lastInputs sel = Some prev \<and> \<not> list_all2 strict_equals cur prev)"
    by blast+
  from memoizedSelector_miss [OF this, of invoked] a
  show "memoizedSelector strict_equals (sel, invoked, h) state
        = ((sel\<lparr>lastInputs := Some cur, recomputations := recomputations sel + 1,
                lastResult := Some v\<rparr>,
            invoked @ [cur], h''), Inr (Some v))"
    by simp
next
  assume a: "call_selectors (selectors sel) state h = (Inr cur, h')
      \<and> (lastInputs sel = None
          \<or> (\<exists>prev. lastInputs sel = Some prev \<and> \<not> list_all2 strict_equals cur prev))
      \<and> resultFn sel cur h' = (Inl x, h'')"
  then have "call_selectors (selectors sel) state h = (Inr cur, h')"
    and "lastInputs sel = None
         \<or> (\<exists>prev. lastInputs sel = Some prev \<and> \<not> list_all2 strict_equals cur prev)"
    by blast+
  from memoizedSelector_miss [OF this, of invoked] a
  show "memoizedSelector strict_equals (sel, invoked, h) state
        = ((sel\<lparr>lastInputs := Some cur, recomputations := recomputations sel + 1\<rparr>,
            invoked @ [cur], h''), Inl x)"
    by simp
next
  assume "call_selectors (selectors sel) state h = (Inl x, h')"
  then show "memoizedSelector strict_equals (sel, invoked, h) state
               = ((sel, invoked, h'), Inl x)"
    by (simp add: memoizedSelector_def)
next
  let ?new = "createSelector args f"
  let ?c1 = "after_call strict_equals (?new, [], h) state"
  assume a: "current_inputs (?new, [], h) state = Inr first
             \<and> current_inputs ?c1 state = Inr second"
  obtain ha where one: "call_selectors (selectors ?new) state h = (Inr first, ha)"
    using a by (cases "call_selectors (selectors ?new) state h")
               (simp add: current_inputs_def)
  have fresh: "lastInputs ?new = None
         \<or> (\<exists>prev. lastInputs ?new = Some prev \<and> \<not> list_all2 strict_equals first prev)"
    by (simp add: createSelector_def)
  note after = after_call_miss [OF one fresh, of "[]"]
  obtain sel1 hb where c1: "?c1 = (sel1, [first], hb)"
    using after(1) by (cases ?c1) auto
  have sel1: "lastInputs sel1 = Some first"
    using after(2) c1 by simp
  obtain hc where two: "call_selectors (selectors sel1) state hb = (Inr second, hc)"
    using a c1 by (cases "call_selectors (selectors sel1) state hb")
                  (simp add: current_inputs_def)
  show "fst (snd (after_call strict_equals ?c1 state))
          = (if list_all2 strict_equals second first then [first] else [first, second])"
  proof (cases "list_all2 strict_equals second first")
    case True
    from after_call_hit [OF two sel1 True, of "[first]"] True show ?thesis
      by (simp add: c1)
  next
    case False
    with sel1 have "lastInputs sel1 = None
         \<or> (\<exists>prev. lastInputs sel1 = Some prev \<and> \<not> list_all2 strict_equals second prev)"
      by simp
    from after_call_miss(1) [OF two this, of "[first]"] False show ?thesis
      by (simp add: c1)
  qed
next
  show "recomputations (fst (foldl (after_call strict_equals) (createSelector args f, [], h) states))
       = length (fst (snd (foldl (after_call strict_equals)
                             (createSelector args f, [], h) states)))"
    by (rule foldl_after_call_counts) (simp add: createSelector_def)
qed

lemma xy_selector_simps:
  "selectors xy_selector = [select_x, select_y]"
  "resultFn xy_selector = count_inputs"
  "lastInputs xy_selector = None"
  "recomputations xy_selector = 0"
  "selectors xy_selector_called = [select_x, select_y]"
  "lastInputs xy_selector_called = Some [Num 1, Num 2]"
  "lastResult xy_selector_called = Some 2"
  by (simp_all add: xy_selector_def xy_selector_called_def createSelector_def)

theorem createSelector_memoization_witness:
  "call_selectors (selectors xy_selector) (Num 1, Num 2) 0 = (Inr [Num 1, Num 2], 0)
   \<and> lastInputs xy_selector = None
   \<and> resultFn xy_selector [Num 1, Num 2] 0 = (Inr 2, 0)
   \<and> memoizedSelector strict_equals_value (xy_selector, [], 0) (Num 1, Num 2)
       = ((xy_selector_called, [[Num 1, Num 2]], 0), Inr (Some 2))
   \<and> call_selectors (selectors xy_selector_called) (Num 1, Num 2) 0 = (Inr [Num 1, Num 2], 0)
   \<and> lastInputs xy_selector_called = Some [Num 1, Num 2]
   \<and> list_all2 strict_equals_value [Num 1, Num 2] [Num 1, Num 2]
   \<and> memoizedSelector strict_equals_value (xy_selector_called, [[Num 1, Num 2]], 0) (Num 1, Num 2)
       = ((xy_selector_called, [[Num 1, Num 2]], 0), Inr (Some 2))
   \<and> resultFn (createSelector [select_x] throwing_result) [Num 1] 0 = (Inl (), 0)
   \<and> memoizedSelector strict_equals_value (createSelector [select_x] throwing_result, [], 0)
        (Num 1, Num 2)
       = ((createSelector [select_x] throwing_result
             \<lparr>lastInputs := Some [Num 1], recomputations := 1\<rparr>, [[Num 1]], 0), Inl ())
   \<and> call_selectors (selectors (createSelector [select_throwing] count_inputs)) (Num 1, Num 2) 0
       = (Inl (), 0)
   \<and> memoizedSelector strict_equals_value (createSelector [select_throwing] count_inputs, [], 0)
        (Num 1, Num 2)
       = ((createSelector [select_throwing] count_inputs, [], 0), Inl ())
   \<and> current_inputs (createSelector [select_x, select_y] count_inputs, [], 0) (Num 1, Num 2)
       = Inr [Num 1, Num 2]
   \<and> current_inputs
        (after_call strict_equals_value
           (createSelector [select_x, select_y] count_inputs, [], 0) (Num 1, Num 2))
        (Num 1, Num 2)
       = Inr [Num 1, Num 2]
   \<and> fst (snd (after_call strict_equals_value
                  (after_call strict_equals_value
                     (createSelector [select_x, select_y] count_inputs, [], 0) (Num 1, Num 2))
                  (Num 1, Num 2)))
       = [[Num 1, Num 2]]"
proof -
  have inputs: "call_selectors (selectors xy_selector) (Num 1, Num 2) 0 = (Inr [Num 1, Num 2], 0)"
    "call_selectors (selectors xy_selector_called) (Num 1, Num 2) 0 = (Inr [Num 1, Num 2], 0)"
    "call_selectors (selectors (createSelector [select_x] throwing_result)) (Num 1, Num 2) 0
       = (Inr [Num 1], 0)"
    by (simp_all add: xy_selector_simps createSelector_def select_x_def select_y_def)
  have new: "lastInputs xy_selector = None"
    "lastInputs (createSelector [select_x] throwing_result) = None"
    by (simp_all add: xy_selector_simps createSelector_def)
  have result: "resultFn xy_selector [Num 1, Num 2] 0 = (Inr 2, 0)"
    "resultFn (createSelector [select_x] throwing_result) [Num 1] 0 = (Inl (), 0)"
    by (simp_all add: xy_selector_simps createSelector_def count_inputs_def throwing_result_def)
  have last: "lastInputs xy_selector_called = Some [Num 1, Num 2]"
    by (simp add: xy_selector_simps)
  have same: "list_all2 strict_equals_value [Num 1, Num 2] [Num 1, Num 2]"
    by simp
  have first: "current_inputs (createSelector [select_x, select_y] count_inputs, [], 0)
                 (Num 1, Num 2) = Inr [Num 1, Num 2]"
    by (simp add: current_inputs_def createSelector_def select_x_def select_y_def)
  have second: "current_inputs
        (after_call strict_equals_value
           (createSelector [select_x, select_y] count_inputs, [], 0) (Num 1, Num 2))
        (Num 1, Num 2)
       = Inr [Num 1, Num 2]"
    by (simp add: current_inputs_def after_call_def memoizedSelector_def createSelector_def
        select_x_def select_y_def count_inputs_def)
  note miss =
    createSelector_memoization
      [where sel = xy_selector and state = "(Num 1, Num 2)" and h = 0 and h' = 0 and h'' = 0
         and cur = "[Num 1, Num 2]" and v = 2 and strict_equals = strict_equals_value
         and invoked = "[]", THEN conjunct2, THEN conjunct1]
  note hit =
    createSelector_memoization
      [where sel = xy_selector_called and state = "(Num 1, Num 2)" and h = 0 and h' = 0
         and cur = "[Num 1, Num 2]" and prev = "[Num 1, Num 2]"
         and strict_equals = strict_equals_value and invoked = "[[Num 1, Num 2]]",
         THEN conjunct1]
  note throw =
    createSelector_memoization
      [where sel = "createSelector [select_x] throwing_result" and state = "(Num 1, Num 2)"
         and h = 0 and h' = 0 and h'' = 0 and cur = "[Num 1]" and x = "()"
         and strict_equals = strict_equals_value and invoked = "[]",
         THEN conjunct2, THEN conjunct2, THEN conjunct1]
  have thrown: "call_selectors (selectors (createSelector [select_throwing] count_inputs))
                  (Num 1, Num 2) 0 = (Inl (), 0)"
    by (simp add: createSelector_def select_throwing_def)
  note selector_throws =
    createSelector_memoization
      [where sel = "createSelector [select_throwing] count_inputs" and state = "(Num 1, Num 2)"
         and h = 0 and h' = 0 and x = "()" and strict_equals = strict_equals_value
         and invoked = "[]",
         THEN conjunct2, THEN conjunct2, THEN conjunct2, THEN conjunct1]
  note twice =
    createSelector_memoization
      [where args = "[select_x, select_y]" and f = count_inputs and state = "(Num 1, Num 2)"
         and h = 0 and first = "[Num 1, Num 2]" and second = "[Num 1, Num 2]"
         and strict_equals = strict_equals_value,
         THEN conjunct2, THEN conjunct2, THEN conjunct2, THEN conjunct2, THEN conjunct1]
  have a: "memoizedSelector strict_equals_value (xy_selector, [], 0) (Num 1, Num 2)
       = ((xy_selector_called, [[Num 1, Num 2]], 0), Inr (Some 2))"
    using miss inputs(1) new(1) result(1)
    by (simp add: xy_selector_called_def xy_selector_simps)
  have b: "memoizedSelector strict_equals_value (xy_selector_called, [[Num 1, Num 2]], 0)
             (Num 1, Num 2)
       = ((xy_selector_called, [[Num 1, Num 2]], 0), Inr (Some 2))"
    using hit inputs(2) last same by (simp add: xy_selector_simps)
  have c: "memoizedSelector strict_equals_value (createSelector [select_x] throwing_result, [], 0)
        (Num 1, Num 2)
       = ((createSelector [select_x] throwing_result
             \<lparr>lastInputs := Some [Num 1], recomputations := 1\<rparr>, [[Num 1]], 0), Inl ())"
    using throw inputs(3) new(2) result(2) by (simp add: createSelector_def)
  have d: "fst (snd (after_call strict_equals_value
                  (after_call strict_equals_value
                     (createSelector [select_x, select_y] count_inputs, [], 0) (Num 1, Num 2))
                  (Num 1, Num 2)))
       = [[Num 1, Num 2]]"
    using twice first second same by simp
  have e: "memoizedSelector strict_equals_value
             (createSelector [select_throwing] count_inputs, [], 0) (Num 1, Num 2)
       = ((createSelector [select_throwing] count_inputs, [], 0), Inl ())"
    using selector_throws thrown by blast
  from inputs new result last same first second thrown a b c d e show ?thesis
    by blast
qed

text \<open>
  C4 as stated fails where an input selector returns, for the same state, a value that is
  not \<open>===\<close> to the one it returned before. With the state \<open>{x: NaN, y: 2}\<close> and the input
  selector \<open>s => s.x\<close>, two calls with the same state invoke the result function twice,
  on \<open>NaN\<close> each time. With the input selector \<open>s => [s.x]\<close> and the state \<open>{x: 1, y: 2}\<close>,
  two calls with the same state invoke the result function twice, on two arrays. With an
  input selector that throws, two calls with the same state do not invoke the result
  function at all.
\<close>

theorem createSelector_same_state_counterexample:
  "fst (snd (after_call strict_equals_value
               (after_call strict_equals_value
                  (createSelector [select_x] count_inputs, [], 0) (NaN, Num 2))
               (NaN, Num 2)))
     = [[NaN], [NaN]]
   \<and> recomputations
        (fst (after_call strict_equals_value
                (after_call strict_equals_value
                   (createSelector [select_x] count_inputs, [], 0) (NaN, Num 2))
                (NaN, Num 2)))
       = 2
   \<and> fst (snd (after_call strict_equals_value
                  (after_call strict_equals_value
                     (createSelector [select_new_array] count_inputs, [], 0) (Num 1, Num 2))
                  (Num 1, Num 2)))
       = [[Ref 0], [Ref 1]]
   \<and> recomputations
        (fst (after_call strict_equals_value
                (after_call strict_equals_value
                   (createSelector [select_new_array] count_inputs, [], 0) (Num 1, Num 2))
                (Num 1, Num 2)))
       = 2
   \<and> returned strict_equals_value (createSelector [select_throwing] count_inputs, [], 0)
        (Num 1, Num 2)
       = Inl ()
   \<and> fst (snd (after_call strict_equals_value
                  (after_call strict_equals_value
                     (createSelector [select_throwing] count_inputs, [], 0) (Num 1, Num 2))
                  (Num 1, Num 2)))
       = []"
  by (simp add: after_call_def returned_def memoizedSelector_def createSelector_def select_x_def
      select_new_array_def select_throwing_def count_inputs_def allEqual_from_list_all2)

section \<open>Properties of the entity adapter\<close>

subsection \<open>The operations on addresses compute the operations on values\<close>

lemma sortEntities_at_value:
  "p < length h \<Longrightarrow>
     map_option (\<lambda>(q, h'). h' ! q) (sortEntities_at L a p h) = sortEntities L a (h ! p)"
  by (simp add: sortEntities_at_def sortEntities_def new_object_def Let_def
      split: option.splits)

lemma addOne_at_value:
  "p < length h \<Longrightarrow>
     map_option (\<lambda>(q, h'). h' ! q) (addOne_at L a p entity h) = addOne L a (h ! p) entity"
  using sortEntities_at_value [of "length h" "h @ [x]" L a for x]
  by (simp add: addOne_at_def addOne_def new_object_def Let_def
      split: option.splits bool.splits)

lemma removeOne_at_value:
  "p < length h \<Longrightarrow>
     map_option (\<lambda>(q, h'). h' ! q) (removeOne_at L p id' h) = removeOne L (h ! p) id'"
  by (simp add: removeOne_at_def removeOne_def new_object_def Let_def
      split: option.splits bool.splits)

lemma updateOne_at_value:
  "p < length h \<Longrightarrow>
     map_option (\<lambda>(q, h'). h' ! q) (updateOne_at L a p upd h) = updateOne L a (h ! p) upd"
  using sortEntities_at_value [of "length h" "h @ [x]" L a for x]
  by (simp add: updateOne_at_def updateOne_def new_object_def Let_def
      split: property.splits)

subsection \<open>Concrete runs\<close>

lemma decimal_digits:
  "decimal 1 = ''1''" "decimal 2 = ''2''" "decimal 3 = ''3''" "decimal 999 = ''999''"
  by (simp_all add: decimal_def decimal_nat.simps)

lemma keys_of_vals:
  "property_key vals (Number 1) = ''1''"
  "property_key vals (Number 2) = ''2''"
  "property_key vals (Number 3) = ''3''"
  "property_key vals (Number 999) = ''999''"
  "property_key vals (Text s) = s"
  "strictly_equal vals x y = (x = y)"
  by (simp_all add: vals_def key_of_val_def decimal_digits)

lemma selectId_user:
  "selectId users_by_id (user i n) = Number i"
  "selectId (users_by_name lc) (user i n) = Number i"
  "sortComparer users_by_id = None"
  "sortComparer (users_by_name lc) = Some (by_name lc)"
  "by_name lc (user i n) (user j m) = lc n m"
  by (simp_all add: users_by_id_def users_by_name_def read_def user_def by_name_def name_of_def)


lemma moved_user: "(user 3 ''C'')(Id \<mapsto> Number 1) = user 1 ''C''"
  by (rule ext) (simp add: user_def)

lemma consistent_on_names:
  "consistent_on (by_name compare_codes) [user 1 ''A'', user 2 ''B'', user 3 ''C'']"
  "consistent_on (by_name compare_codes) [user 1 ''A'', user 2 ''B'', user 1 ''C'']"
  "consistent_on (by_name compare_codes) [user 3 ''Charlie'', user 1 ''Alice'']"
  "consistent_on (by_name compare_codes) [user 1 ''Alice'', user 3 ''Charlie'', user 2 ''Bob'']"
  "consistent_on (by_name compare_codes) [user 1 ''A'', user 2 ''B'']"
  by (simp_all add: consistent_on_def selectId_user)

text \<open>
  C1. The invariant of the data model is lost in \<open>setAll\<close>: the initial state has it, and
  \<open>setAll\<close> of two users with the id 1 returns a state that lists the id 1 twice, for the
  one entity that is stored under it. \<open>addMany\<close> of the same users lists the id once.
\<close>

theorem setAll_lists_repeated_id:
  "ids_match_entities vals (getInitialState :: (val, field, val) EntityState)
   \<and> setAll vals users_by_id getInitialState [user 1 ''A'', user 1 ''B'']
       = Some \<lparr>ids = [Number 1, Number 1],
                entities = \<lparr>own = [''1'' \<mapsto> user 1 ''B''], prototype = None\<rparr>\<rparr>
   \<and> \<not> ids_match_entities vals
          \<lparr>ids = [Number 1, Number 1],
           entities = \<lparr>own = [''1'' \<mapsto> user 1 ''B''], prototype = None\<rparr>\<rparr>
   \<and> addMany vals users_by_id getInitialState [user 1 ''A'', user 1 ''B'']
       = Some \<lparr>ids = [Number 1],
                entities = \<lparr>own = [''1'' \<mapsto> user 1 ''A''], prototype = None\<rparr>\<rparr>"
proof -
  have initial: "ids_match_entities vals (getInitialState :: (val, field, val) EntityState)"
    by (simp add: ids_match_entities_def getInitialState_def empty_object_def)
  have set: "setAll vals users_by_id getInitialState [user 1 ''A'', user 1 ''B'']
       = Some \<lparr>ids = [Number 1, Number 1],
                entities = \<lparr>own = [''1'' \<mapsto> user 1 ''B''], prototype = None\<rparr>\<rparr>"
    by (simp add: setAll_def for_each_def assign_property_def define_property_def
        empty_object_def sortEntities_def selectId_user keys_of_vals Let_def)
  have twice: "\<not> ids_match_entities vals
          \<lparr>ids = [Number 1, Number 1],
           entities = \<lparr>own = [''1'' \<mapsto> user 1 ''B''], prototype = None\<rparr>\<rparr>"
    by (simp add: ids_match_entities_def)
  have add: "addMany vals users_by_id getInitialState [user 1 ''A'', user 1 ''B'']
       = Some \<lparr>ids = [Number 1],
                entities = \<lparr>own = [''1'' \<mapsto> user 1 ''A''], prototype = None\<rparr>\<rparr>"
    by (simp add: addMany_def for_each_def addOne_def getInitialState_def empty_object_def
        get_property_def is_present_def Object_prototype_def define_property_def
        spread_object_def sortEntities_def selectId_user keys_of_vals Let_def)
  from initial set twice add show ?thesis
    by blast
qed

text \<open>
  C2. The adapter sorts the users by name: \<open>addMany\<close> of the users 3 Charlie, 1 Alice and
  2 Bob into the initial state gives the ids 1, 2, 3, and \<open>addMany\<close> of the users 1 A, 2 B
  and 3 C gives \<open>abc_state\<close>. But \<open>updateOne\<close> of the user 3 with the changes \<open>{id: 1}\<close> then
  gives the ids 1, 2, 1: the list \<open>ids.map(id => entities[id])\<close> holds the users A, B, A,
  and the comparator puts A strictly before B.
\<close>

theorem updateOne_changed_id_unsorted:
  "addMany vals (users_by_name compare_codes) getInitialState
      [user 3 ''Charlie'', user 1 ''Alice'', user 2 ''Bob'']
     = Some \<lparr>ids = [Number 1, Number 2, Number 3],
              entities = \<lparr>own = [''3'' \<mapsto> user 3 ''Charlie'', ''1'' \<mapsto> user 1 ''Alice'',
                                  ''2'' \<mapsto> user 2 ''Bob''],
                          prototype = None\<rparr>\<rparr>
   \<and> addMany vals (users_by_name compare_codes) getInitialState
        [user 1 ''A'', user 2 ''B'', user 3 ''C'']
       = Some abc_state
   \<and> updateOne vals (users_by_name compare_codes) abc_state move_id = Some moved_state
   \<and> listed vals moved_state = [Own (user 1 ''A''), Own (user 2 ''B''), Own (user 1 ''A'')]
   \<and> by_name compare_codes (user 2 ''B'') (user 1 ''A'') = 1
   \<and> \<not> sorted_by (by_name compare_codes) (listed vals moved_state)"
proof -
  have scenario: "addMany vals (users_by_name compare_codes) getInitialState
      [user 3 ''Charlie'', user 1 ''Alice'', user 2 ''Bob'']
     = Some \<lparr>ids = [Number 1, Number 2, Number 3],
              entities = \<lparr>own = [''3'' \<mapsto> user 3 ''Charlie'', ''1'' \<mapsto> user 1 ''Alice'',
                                  ''2'' \<mapsto> user 2 ''Bob''],
                          prototype = None\<rparr>\<rparr>"
    by (simp add: addMany_def for_each_def addOne_def getInitialState_def empty_object_def
        get_property_def is_present_def Object_prototype_def define_property_def
        spread_object_def sortEntities_def listed_def sort_array_def sort_with_def
        consistent_on_names selectId_user keys_of_vals Let_def)
  have abc: "addMany vals (users_by_name compare_codes) getInitialState
        [user 1 ''A'', user 2 ''B'', user 3 ''C'']
       = Some abc_state"
    by (simp add: addMany_def for_each_def addOne_def getInitialState_def empty_object_def
        get_property_def is_present_def Object_prototype_def define_property_def
        spread_object_def sortEntities_def listed_def sort_array_def sort_with_def
        consistent_on_names selectId_user keys_of_vals abc_state_def Let_def)
  have moved: "updateOne vals (users_by_name compare_codes) abc_state move_id = Some moved_state"
    by (simp add: updateOne_def abc_state_def move_id_def moved_state_def
        get_property_def define_property_def spread_object_def sortEntities_def listed_def
        sort_array_def sort_with_def consistent_on_names selectId_user keys_of_vals moved_user
        Let_def)
  have list: "listed vals moved_state
                = [Own (user 1 ''A''), Own (user 2 ''B''), Own (user 1 ''A'')]"
    by (simp add: listed_def moved_state_def get_property_def keys_of_vals)
  have after: "by_name compare_codes (user 2 ''B'') (user 1 ''A'') = 1"
    by (simp add: selectId_user)
  have unsorted: "\<not> sorted_by (by_name compare_codes) (listed vals moved_state)"
    by (simp add: list sorted_by_def selectId_user)
  from scenario abc moved list after unsorted show ?thesis
    by blast
qed

text \<open>
  Where the lookup of the id gives \<open>undefined\<close>, \<open>removeOne\<close> and \<open>updateOne\<close> return the
  object they were given, and so does \<open>addOne\<close> where the lookup finds something.
\<close>

lemma lookup_undefined_same_reference:
  "(get_property (entities (h ! p)) (property_key L id') = Absent \<longrightarrow>
      removeOne_at L p id' h = Some (p, h))
   \<and> (get_property (entities (h ! p)) (property_key L (update_id upd)) = Absent \<longrightarrow>
      updateOne_at L a p upd h = Some (p, h))
   \<and> (is_present (get_property (entities (h ! p)) (property_key L (selectId a entity)))
        = Some True \<longrightarrow>
      addOne_at L a p entity h = Some (p, h))"
  by (simp add: removeOne_at_def updateOne_at_def addOne_at_def is_present_def Let_def)

text \<open>
  C3. \<open>removeOne\<close> and \<open>updateOne\<close> with the id \<open>constructor\<close>, which is absent from
  \<open>entities\<close>, do not return the object they were given (at the address 0), but a new
  one (at the address 1): the lookup finds the member of \<open>Object.prototype\<close>. The new state
  of \<open>removeOne\<close> has the value of the old one, and the one of \<open>updateOne\<close> holds the changes
  as an entity under the key \<open>constructor\<close>. With the id 999, which is absent as well, both
  return the object they were given.
\<close>

theorem absent_id_new_object:
  "own (entities (alice_store ! 0)) ''constructor'' = None
   \<and> removeOne_at vals 0 (Text ''constructor'') alice_store
       = Some (1, [alice_state, alice_state])
   \<and> updateOne_at vals users_by_id 0
        \<lparr>update_id = Text ''constructor'', changes = [Name \<mapsto> Text ''Nobody'']\<rparr> alice_store
       = Some (1, [alice_state,
                   \<lparr>ids = [Number 1],
                    entities = \<lparr>own = [''1'' \<mapsto> user 1 ''Alice'',
                                        ''constructor'' \<mapsto> [Name \<mapsto> Text ''Nobody'']],
                                prototype = None\<rparr>\<rparr>])
   \<and> own (entities (alice_store ! 0)) ''999'' = None
   \<and> removeOne_at vals 0 (Number 999) alice_store = Some (0, alice_store)
   \<and> updateOne_at vals users_by_id 0
        \<lparr>update_id = Number 999, changes = [Name \<mapsto> Text ''Nobody'']\<rparr> alice_store
       = Some (0, alice_store)"
  by (simp add: alice_store_def alice_state_def removeOne_at_def updateOne_at_def
      new_object_def sortEntities_at_def get_property_def is_present_def Object_prototype_def
      delete_property_def define_property_def spread_object_def selectId_user keys_of_vals
      Let_def)

end
